theory Spec2Isabelle
  imports Complex_Main
begin

section \<open>The tensor framework as rnn.cpp observes it\<close>

text \<open>
  rnn.cpp is glue on top of a tensor framework that is not part of the file. A tensor
  handle is kept as the attributes the file reads from it: its sizes, its element type,
  its device and its data pointer. \<open>Tensor()\<close>, the undefined handle, is \<open>None\<close>.
\<close>

datatype ScalarType = kFloat | kDouble | kHalf | kLong

datatype Device = CPU | CUDA nat

record TensorImpl =
  sizes :: "int list"
  dtype :: ScalarType
  device :: Device
  data_ptr :: nat

type_synonym Tensor = "TensorImpl option"

text \<open>
  A value of C++ type \<open>int64_t\<close> is an integer from \<open>- 2 ^ 63\<close> to \<open>2 ^ 63 - 1\<close>. rnn.cpp
  multiplies such values (the gate size, the input size of a layer, the first dimension
  of the hidden state); the product is taken in \<open>int64_t\<close>. \<open>int64_t i\<close> is the value of
  that type congruent to \<open>i\<close> modulo \<open>2 ^ 64\<close>: the product itself when it fits, and the
  two's-complement result that the compiled code computes when it does not (an overflow
  that the C++ standard leaves undefined).
\<close>

definition int64_t :: "int \<Rightarrow> int" where
  "int64_t i = (i + 2 ^ 63) mod 2 ^ 64 - 2 ^ 63"

definition is_int64 :: "int \<Rightarrow> bool" where
  "is_int64 i \<longleftrightarrow> - (2 ^ 63) \<le> i \<and> i < 2 ^ 63"

text \<open>
  A C++ \<open>double\<close> with the comparisons of IEEE 754: every comparison with NaN is false.
\<close>

datatype double = Finite real | PosInf | NegInf | NaN

fun double_le :: "double \<Rightarrow> double \<Rightarrow> bool" where
  "double_le NaN b = False"
| "double_le a NaN = False"
| "double_le NegInf b = True"
| "double_le a PosInf = True"
| "double_le (Finite a) (Finite b) = (a \<le> b)"
| "double_le PosInf b = False"
| "double_le (Finite a) NegInf = False"

fun double_less :: "double \<Rightarrow> double \<Rightarrow> bool" where
  "double_less NaN b = False"
| "double_less a NaN = False"
| "double_less (Finite a) (Finite b) = (a < b)"
| "double_less NegInf NegInf = False"
| "double_less NegInf b = True"
| "double_less PosInf b = False"
| "double_less (Finite a) PosInf = True"
| "double_less (Finite a) NegInf = False"

text \<open>
  The mode of \<open>RNNOptionsBase\<close> is a variant over enum tags declared in a header that is
  not part of the file. rnn.cpp tests the four alternatives below and raises on anything
  else; \<open>kUnrecognized\<close> stands for a value that is none of the four.
\<close>

datatype rnn_options_base_mode_t = kLSTM | kGRU | kRNN_TANH | kRNN_RELU | kUnrecognized

text \<open>
  \<open>RNNOptionsBase\<close>: one field per accessor that rnn.cpp calls; the sizes and the number
  of layers are \<open>int64_t\<close> in the source. flatten_parameters reads \<open>options.with_bias()\<close>
  where every other function reads \<open>options.bias()\<close>; both are kept.
\<close>

record RNNOptionsBase =
  mode :: rnn_options_base_mode_t
  input_size :: int
  hidden_size :: int
  num_layers :: int
  bias :: bool
  with_bias :: bool
  batch_first :: bool
  dropout :: double
  bidirectional :: bool

record PackedSequence =
  data :: Tensor
  batch_sizes :: Tensor
  sorted_indices :: Tensor
  unsorted_indices :: Tensor

text \<open>The mode codes of cuDNN (lines 43-45).\<close>

datatype CuDNNMode = RNN_RELU | RNN_TANH | LSTM | GRU

fun CuDNNMode_code :: "CuDNNMode \<Rightarrow> int" where
  "CuDNNMode_code RNN_RELU = 0"
| "CuDNNMode_code RNN_TANH = 1"
| "CuDNNMode_code LSTM = 2"
| "CuDNNMode_code GRU = 3"

text \<open>
  Every way a call can fail to return normally: the \<open>TORCH_CHECK\<close>s of rnn.cpp, the
  tensor accessors applied to an undefined handle or a dimension that does not exist,
  a refusal of the framework (a negative dimension handed to \<open>torch::empty\<close> or
  \<open>torch::zeros\<close>, or any other failure of an allocation or an initialisation), and the
  two places where the C++ has undefined behaviour (reading element 0 of an empty
  \<open>std::vector\<close>, and reaching the end of a value-returning function with no \<open>return\<close>).
\<close>

datatype error =
    Unknown_mode rnn_options_base_mode_t
  | Unrecognized_RNN_mode rnn_options_base_mode_t
  | Dropout_out_of_range
  | Input_dim_mismatch int int
  | Input_size_mismatch int int
  | Hidden_size_mismatch string "int \<times> int \<times> int" "int list"
  | Undefined_tensor
  | Dimension_out_of_range int
  | Key_already_defined string
  | Negative_dimension "int list"
  | Framework_error string
  | Null_function
  | Vector_index_out_of_range
  | No_return_value

text \<open>
  The fused kernels. Each has two overloads: the padded one takes (input, hx, params,
  has_biases, num_layers, dropout, train, bidirectional, batch_first), the packed one
  takes (data, batch_sizes, hx, params, has_biases, num_layers, dropout, train,
  bidirectional). A function of the framework is a kernel together with one of its
  overloads. \<open>hx\<close> is one tensor for \<open>rnn_tanh\<close>, \<open>rnn_relu\<close> and \<open>gru\<close> and the pair of
  hidden and cell state for \<open>lstm\<close>; the model keeps it as a list.
\<close>

datatype fused_kernel = rnn_tanh | rnn_relu | lstm | gru

datatype overload = padded | packed

type_synonym fused_function = "fused_kernel \<times> overload"

datatype arguments =
    Padded_arguments Tensor "Tensor list" "Tensor list" bool int double bool bool bool
  | Packed_arguments Tensor Tensor "Tensor list" "Tensor list" bool int double bool bool

text \<open>
  The calls into the framework that have an effect outside the module: a warning, a
  fused kernel (the function that is called and the argument list it is called with),
  the cuDNN weight flattening (in place on the flat weights) and \<open>init::uniform_\<close>
  (in place on a parameter; its bounds are plus and minus
  \<open>1.0 / std::sqrt(hidden_size)\<close>, kept as the hidden size they are computed from).
\<close>

datatype event =
    Warn_dropout double int
  | Kernel fused_function arguments
  | Cudnn_rnn_flatten_weight "Tensor list" int int CuDNNMode int int bool bool
  | Uniform_init Tensor int

text \<open>
  What rnn.cpp calls from outside the file is a parameter of the model: nothing is
  assumed about what it returns. \<open>allocate_empty\<close> and \<open>allocate_zeros\<close> are the
  allocations behind \<open>torch::empty\<close> and \<open>torch::zeros\<close>, and \<open>init_uniform\<close> is
  \<open>init::uniform_\<close>; each may raise. \<open>item_int64 t i\<close> is \<open>t[i].item<int64_t>()\<close>;
  \<open>torch_rnn\<close> is the result of \<open>rnn_tanh\<close>, \<open>rnn_relu\<close> and \<open>gru\<close> (a pair),
  \<open>torch_lstm\<close> that of \<open>lstm\<close> (a triple). \<open>index_select\<close>, \<open>item\<close>, the cuDNN calls
  and the kernels are taken to return: a failure inside them is not modelled.

  \<open>layer_text\<close> is of another kind. Line 136 hands the \<open>int64_t\<close> layer to
  \<open>std::regex_replace\<close> as the replacement text; the library has no overload that takes
  an integer there and the file names no conversion. The text that takes the place of
  \<open>\{layer}\<close> for a layer is therefore a parameter too, and nothing is assumed about it.
\<close>

record torch =
  allocate_empty :: "int list \<Rightarrow> error + Tensor"
  allocate_zeros :: "int list \<Rightarrow> ScalarType option \<Rightarrow> Device option \<Rightarrow> error + Tensor"
  init_uniform :: "Tensor \<Rightarrow> int \<Rightarrow> error + unit"
  index_select :: "Tensor \<Rightarrow> int \<Rightarrow> Tensor \<Rightarrow> Tensor"
  item_int64 :: "Tensor \<Rightarrow> int \<Rightarrow> int"
  cudnn_is_acceptable :: "Tensor \<Rightarrow> bool"
  torch_rnn :: "fused_function \<Rightarrow> arguments \<Rightarrow> Tensor \<times> Tensor"
  torch_lstm :: "fused_function \<Rightarrow> arguments \<Rightarrow> Tensor \<times> Tensor \<times> Tensor"
  layer_text :: "int \<Rightarrow> string"

text \<open>
  \<open>torch::empty\<close> and \<open>torch::zeros\<close> refuse a shape with a negative dimension; for any
  other shape the outcome is the allocator's.
\<close>

definition torch_empty :: "torch \<Rightarrow> int list \<Rightarrow> error + Tensor" where
  "torch_empty api shape =
     (if list_ex (\<lambda>d. d < 0) shape then Inl (Negative_dimension shape)
      else allocate_empty api shape)"

definition torch_zeros ::
  "torch \<Rightarrow> int list \<Rightarrow> ScalarType option \<Rightarrow> Device option \<Rightarrow> error + Tensor" where
  "torch_zeros api shape dt dev =
     (if list_ex (\<lambda>d. d < 0) shape then Inl (Negative_dimension shape)
      else allocate_zeros api shape dt dev)"

text \<open>
  Modelled from the spec: the accessors of the tensor handle belong to the framework
  (out of scope in the spec, not in the file). \<open>defined\<close>, \<open>dtype\<close>, \<open>is_cuda\<close> and
  \<open>data_ptr\<close> answer for every handle; \<open>dim\<close>, \<open>sizes\<close> and \<open>size\<close> raise on the
  undefined handle, and \<open>size(d)\<close> raises when the tensor has no dimension \<open>d\<close>
  (a negative \<open>d\<close> counts from the end).
\<close>

definition defined :: "Tensor \<Rightarrow> bool" where
  "defined t = (t \<noteq> None)"

definition dtype_of :: "Tensor \<Rightarrow> ScalarType option" where
  "dtype_of t = map_option dtype t"

definition device_of :: "Tensor \<Rightarrow> Device option" where
  "device_of t = map_option device t"

definition is_cuda :: "Tensor \<Rightarrow> bool" where
  "is_cuda t = (case t of None \<Rightarrow> False | Some i \<Rightarrow> (case device i of CUDA n \<Rightarrow> True | CPU \<Rightarrow> False))"

definition data_ptr_of :: "Tensor \<Rightarrow> nat" where
  "data_ptr_of t = (case t of None \<Rightarrow> 0 | Some i \<Rightarrow> data_ptr i)"

definition tensor_dim :: "Tensor \<Rightarrow> error + int" where
  "tensor_dim t = (case t of None \<Rightarrow> Inl Undefined_tensor | Some i \<Rightarrow> Inr (int (length (sizes i))))"

definition tensor_sizes :: "Tensor \<Rightarrow> error + int list" where
  "tensor_sizes t = (case t of None \<Rightarrow> Inl Undefined_tensor | Some i \<Rightarrow> Inr (sizes i))"

definition tensor_size :: "Tensor \<Rightarrow> int \<Rightarrow> error + int" where
  "tensor_size t d =
     (case t of
        None \<Rightarrow> Inl Undefined_tensor
      | Some i \<Rightarrow>
          (let n = int (length (sizes i)); j = (if d < 0 then d + n else d)
           in if 0 \<le> j \<and> j < n then Inr (sizes i ! nat j) else Inl (Dimension_out_of_range d)))"

section \<open>Effects and errors\<close>

text \<open>
  A call returns the framework events it caused, in order, and either the error that
  ended it or its value. An exception keeps the events that came before it.
\<close>

type_synonym 'a io = "event list \<times> (error + 'a)"

definition ret :: "'a \<Rightarrow> 'a io" where
  "ret x = ([], Inr x)"

definition raise :: "error \<Rightarrow> 'a io" where
  "raise e = ([], Inl e)"

definition emit :: "event \<Rightarrow> unit io" where
  "emit ev = ([ev], Inr ())"

definition lift :: "error + 'a \<Rightarrow> 'a io" where
  "lift r = ([], r)"

definition bind_io :: "'a io \<Rightarrow> ('a \<Rightarrow> 'b io) \<Rightarrow> 'b io" where
  "bind_io c f =
     (case c of
        (tr, Inl e) \<Rightarrow> (tr, Inl e)
      | (tr, Inr x) \<Rightarrow> (case f x of (tr', r) \<Rightarrow> (tr @ tr', r)))"

section \<open>The module\<close>

text \<open>
  \<open>RNNImplBase\<close>: the options, the ordered dictionary of parameters of the module base
  class, \<open>_flat_weights_names\<close>, \<open>_all_weights\<close>, \<open>_flat_weights\<close> and the training flag
  that \<open>is_training()\<close> reads.
\<close>

text \<open>
  The constructors of \<open>RNNImpl\<close>, \<open>LSTMImpl\<close> and \<open>GRUImpl\<close> build the base class on
  options with the mode fixed; the model has the constructor of the base class. The
  \<open>to\<close> overloads, \<open>pretty_print\<close> and \<open>all_weights\<close> take no part in what is proved
  below and are left out. The scoped guards of flatten_parameters (device, no-grad)
  change nothing that the model observes.
\<close>

record RNNImplBase =
  options :: RNNOptionsBase
  parameters :: "(string \<times> Tensor) list"
  flat_weights_names :: "string list"
  all_weights :: "string list list"
  flat_weights :: "Tensor list"
  is_training :: bool

subsection \<open>Free functions (lines 26-73)\<close>

text \<open>
  \<open>RNNFunctionSignature\<close> (lines 27-36) is the type of the padded overload, so a pointer
  of type \<open>RNNFunctionSignature*\<close> to a kernel is a pointer to its padded overload. The
  table \<open>_rnn_impls\<close> holds two such pointers.
\<close>

definition RNNFunctionSignature :: "fused_kernel \<Rightarrow> fused_function" where
  "RNNFunctionSignature k = (k, padded)"

definition rnn_impls :: "(string \<times> fused_function) list" where
  "rnn_impls = [(''RNN_TANH'', RNNFunctionSignature rnn_tanh),
                (''RNN_RELU'', RNNFunctionSignature rnn_relu)]"

fun get_cudnn_mode_for_rnn :: "rnn_options_base_mode_t \<Rightarrow> error + CuDNNMode" where
  "get_cudnn_mode_for_rnn kRNN_RELU = Inr RNN_RELU"
| "get_cudnn_mode_for_rnn kRNN_TANH = Inr RNN_TANH"
| "get_cudnn_mode_for_rnn kLSTM = Inr LSTM"
| "get_cudnn_mode_for_rnn kGRU = Inr GRU"
| "get_cudnn_mode_for_rnn m = Inl (Unknown_mode m)"

definition rnn_impls_at :: "string \<Rightarrow> error + fused_function" where
  "rnn_impls_at key = (case map_of rnn_impls key of None \<Rightarrow> Inl Null_function | Some f \<Rightarrow> Inr f)"

fun get_rnn_impl :: "rnn_options_base_mode_t \<Rightarrow> error + fused_function" where
  "get_rnn_impl kRNN_TANH = rnn_impls_at ''RNN_TANH''"
| "get_rnn_impl kRNN_RELU = rnn_impls_at ''RNN_RELU''"
| "get_rnn_impl m = Inl (Unknown_mode m)"

definition apply_permutation :: "torch \<Rightarrow> Tensor \<Rightarrow> Tensor \<Rightarrow> int \<Rightarrow> Tensor" where
  "apply_permutation api tensor permutation d = index_select api tensor d permutation"

subsection \<open>Shape checks (lines 267-317)\<close>

text \<open>
  The checks are non-const member functions returning \<open>void\<close>: the model returns the
  module as the call leaves it.
\<close>

definition check_input :: "RNNImplBase \<Rightarrow> Tensor \<Rightarrow> Tensor \<Rightarrow> error + RNNImplBase" where
  "check_input m input bs =
     (let expected_input_dim = (if defined bs then 2 else 3)
      in case tensor_dim input of
           Inl e \<Rightarrow> Inl e
         | Inr d \<Rightarrow>
             if d \<noteq> expected_input_dim then Inl (Input_dim_mismatch expected_input_dim d)
             else (case tensor_size input (- 1) of
                     Inl e \<Rightarrow> Inl e
                   | Inr s \<Rightarrow>
                       if input_size (options m) \<noteq> s
                       then Inl (Input_size_mismatch (input_size (options m)) s)
                       else Inr m))"

definition get_expected_hidden_size ::
  "torch \<Rightarrow> RNNImplBase \<Rightarrow> Tensor \<Rightarrow> Tensor \<Rightarrow> error + (int \<times> int \<times> int)" where
  "get_expected_hidden_size api m input bs =
     (case (if defined bs then Inr (item_int64 api bs 0)
            else if batch_first (options m) then tensor_size input 0 else tensor_size input 1) of
        Inl e \<Rightarrow> Inl e
      | Inr mini_batch \<Rightarrow>
          (let num_directions = (if bidirectional (options m) then 2 else 1)
           in Inr (int64_t (num_layers (options m) * num_directions), mini_batch,
                   hidden_size (options m))))"

definition check_hidden_size ::
  "RNNImplBase \<Rightarrow> Tensor \<Rightarrow> int \<times> int \<times> int \<Rightarrow> string \<Rightarrow> error + RNNImplBase" where
  "check_hidden_size m hx expected_hidden_size msg =
     (case tensor_sizes hx of
        Inl e \<Rightarrow> Inl e
      | Inr s \<Rightarrow>
          (case expected_hidden_size of
             (a, b, c) \<Rightarrow>
               if s \<noteq> [a, b, c] then Inl (Hidden_size_mismatch msg expected_hidden_size s)
               else Inr m))"

text \<open>
  The two-argument call of check_hidden_size in line 308 takes the message from the
  default argument of the declaration, which is in the header.
\<close>

definition default_hidden_msg :: string where
  "default_hidden_msg = ''Expected hidden size {1}, got {2}''"

definition check_forward_args ::
  "torch \<Rightarrow> RNNImplBase \<Rightarrow> Tensor \<Rightarrow> Tensor \<Rightarrow> Tensor \<Rightarrow> error + RNNImplBase" where
  "check_forward_args api m input hidden bs =
     (case check_input m input bs of
        Inl e \<Rightarrow> Inl e
      | Inr m1 \<Rightarrow>
          (case get_expected_hidden_size api m1 input bs of
             Inl e \<Rightarrow> Inl e
           | Inr expected_hidden_size \<Rightarrow>
               check_hidden_size m1 hidden expected_hidden_size default_hidden_msg))"

definition permute_hidden :: "torch \<Rightarrow> Tensor \<Rightarrow> Tensor \<Rightarrow> Tensor" where
  "permute_hidden api hx permutation =
     (if \<not> defined permutation then hx else apply_permutation api hx permutation 1)"

subsection \<open>LSTM (lines 452-470)\<close>

definition LSTMImpl_check_forward_args ::
  "torch \<Rightarrow> RNNImplBase \<Rightarrow> Tensor \<Rightarrow> Tensor \<times> Tensor \<Rightarrow> Tensor \<Rightarrow> error + RNNImplBase" where
  "LSTMImpl_check_forward_args api m input hidden bs =
     (case check_input m input bs of
        Inl e \<Rightarrow> Inl e
      | Inr m1 \<Rightarrow>
          (case get_expected_hidden_size api m1 input bs of
             Inl e \<Rightarrow> Inl e
           | Inr expected_hidden_size \<Rightarrow>
               (case check_hidden_size m1 (fst hidden) expected_hidden_size
                       ''Expected hidden[0] size {1}, got {2}'' of
                  Inl e \<Rightarrow> Inl e
                | Inr m2 \<Rightarrow>
                    check_hidden_size m2 (snd hidden) expected_hidden_size
                      ''Expected hidden[1] size {1}, got {2}'')))"

definition LSTMImpl_permute_hidden ::
  "torch \<Rightarrow> Tensor \<times> Tensor \<Rightarrow> Tensor \<Rightarrow> Tensor \<times> Tensor" where
  "LSTMImpl_permute_hidden api hx permutation =
     (if \<not> defined permutation then hx
      else (apply_permutation api (fst hx) permutation 1,
            apply_permutation api (snd hx) permutation 1))"

subsection \<open>Parameter names (lines 129-139)\<close>

text \<open>
  \<open>std::regex_replace(s, std::regex(pat), fmt)\<close> for a pattern that matches one literal
  text, as \<open>\{layer}\<close> and \<open>\{suffix}\<close> do: every occurrence of the text in \<open>s\<close>, found
  from the left, is replaced by \<open>fmt\<close>.
\<close>

function regex_replace :: "string \<Rightarrow> string \<Rightarrow> string \<Rightarrow> string" where
  "regex_replace s pat fmt =
     (if s = [] then []
      else if pat \<noteq> [] \<and> take (length pat) s = pat
           then fmt @ regex_replace (drop (length pat) s) pat fmt
           else hd s # regex_replace (tl s) pat fmt)"
  by pat_completeness auto
termination
  by (relation "measure (\<lambda>(s, pat, fmt). length s)") auto

declare regex_replace.simps [simp del]

text \<open>
  Lines 129-139. In line 136 the replacement for \<open>\{layer}\<close> is the integer \<open>layer\<close>
  itself; the text that stands for it is \<open>layer_text api layer\<close>, whatever that is.
\<close>

definition param_names :: "torch \<Rightarrow> bool \<Rightarrow> int \<Rightarrow> int \<Rightarrow> string list" where
  "param_names api b layer direction =
     (let suffix = (if direction = 1 then ''_reverse'' else '''');
          names = [''weight_ih_l{layer}{suffix}'', ''weight_hh_l{layer}{suffix}''] @
                  (if b then [''bias_ih_l{layer}{suffix}'', ''bias_hh_l{layer}{suffix}'']
                   else [])
      in map (\<lambda>n. regex_replace (regex_replace n ''{layer}'' (layer_text api layer))
                      ''{suffix}'' suffix) names)"

subsection \<open>reset and what it calls (lines 83-265)\<close>

text \<open>
  Modelled from the spec: register_parameter and named_parameters belong to the module
  base class (the parameter-registration machinery, out of scope in the spec and not in
  the file). register_parameter appends the named tensor to the ordered dictionary of
  parameters, which refuses a key it already holds; named_parameters lists the entries
  whose tensor is defined.
\<close>

definition register_parameter :: "RNNImplBase \<Rightarrow> string \<Rightarrow> Tensor \<Rightarrow> error + RNNImplBase" where
  "register_parameter m name param =
     (if name \<in> set (map fst (parameters m)) then Inl (Key_already_defined name)
      else Inr (m\<lparr>parameters := parameters m @ [(name, param)]\<rparr>))"

definition named_parameters :: "RNNImplBase \<Rightarrow> (string \<times> Tensor) list" where
  "named_parameters m = filter (\<lambda>p. defined (snd p)) (parameters m)"

text \<open>
  Lines 141-145: \<open>param_names[i]\<close> is registered with \<open>layer_params[i]\<close>. Reading
  \<open>layer_params\<close> beyond its end would be undefined behaviour.
\<close>

fun register_parameters :: "RNNImplBase \<Rightarrow> string list \<Rightarrow> Tensor list \<Rightarrow> error + RNNImplBase" where
  "register_parameters m [] ps = Inr m"
| "register_parameters m (n # ns) [] = Inl Vector_index_out_of_range"
| "register_parameters m (n # ns) (p # ps) =
     (case register_parameter m n p of
        Inl e \<Rightarrow> Inl e
      | Inr m' \<Rightarrow> register_parameters m' ns ps)"

text \<open>
  The body of the two loops, lines 119-147. The four tensors are allocated whether or
  not the module has biases; the first allocation that is refused ends the call.
\<close>

definition reset_layer_direction ::
  "torch \<Rightarrow> RNNOptionsBase \<Rightarrow> int \<Rightarrow> int \<Rightarrow> int \<Rightarrow> int \<Rightarrow> RNNImplBase \<Rightarrow> error + RNNImplBase" where
  "reset_layer_direction api opts gate_size num_directions layer direction m =
     (let layer_input_size =
            (if layer = 0 then input_size opts
             else int64_t (hidden_size opts * num_directions))
      in case torch_empty api [gate_size, layer_input_size] of
           Inl e \<Rightarrow> Inl e
         | Inr w_ih \<Rightarrow>
        (case torch_empty api [gate_size, hidden_size opts] of
           Inl e \<Rightarrow> Inl e
         | Inr w_hh \<Rightarrow>
        (case torch_empty api [gate_size] of
           Inl e \<Rightarrow> Inl e
         | Inr b_ih \<Rightarrow>
        (case torch_empty api [gate_size] of
           Inl e \<Rightarrow> Inl e
         | Inr b_hh \<Rightarrow>
             (let layer_params = [w_ih, w_hh, b_ih, b_hh];
                  names = param_names api (bias opts) layer direction
              in case register_parameters m names layer_params of
                   Inl e \<Rightarrow> Inl e
                 | Inr m' \<Rightarrow>
                     Inr (m'\<lparr>flat_weights_names := flat_weights_names m' @ names,
                              all_weights := all_weights m' @ [names]\<rparr>))))))"

function reset_directions ::
  "torch \<Rightarrow> RNNOptionsBase \<Rightarrow> int \<Rightarrow> int \<Rightarrow> int \<Rightarrow> int \<Rightarrow> RNNImplBase \<Rightarrow> error + RNNImplBase" where
  "reset_directions api opts gate_size num_directions layer direction m =
     (if direction < num_directions
      then (case reset_layer_direction api opts gate_size num_directions layer direction m of
              Inl e \<Rightarrow> Inl e
            | Inr m' \<Rightarrow> reset_directions api opts gate_size num_directions layer (direction + 1) m')
      else Inr m)"
  by pat_completeness auto
termination
  by (relation "measure (\<lambda>(api, opts, g, nd, layer, direction, m). nat (nd - direction))") auto

declare reset_directions.simps [simp del]

function reset_layers ::
  "torch \<Rightarrow> RNNOptionsBase \<Rightarrow> int \<Rightarrow> int \<Rightarrow> int \<Rightarrow> RNNImplBase \<Rightarrow> error + RNNImplBase" where
  "reset_layers api opts gate_size num_directions layer m =
     (if layer < num_layers opts
      then (case reset_directions api opts gate_size num_directions layer 0 m of
              Inl e \<Rightarrow> Inl e
            | Inr m' \<Rightarrow> reset_layers api opts gate_size num_directions (layer + 1) m')
      else Inr m)"
  by pat_completeness auto
termination
  by (relation "measure (\<lambda>(api, opts, g, nd, layer, m). nat (num_layers opts - layer))") auto

declare reset_layers.simps [simp del]

text \<open>Lines 101-112.\<close>

definition gate_size_of :: "RNNOptionsBase \<Rightarrow> error + int" where
  "gate_size_of opts =
     (case mode opts of
        kLSTM \<Rightarrow> Inr (int64_t (4 * hidden_size opts))
      | kGRU \<Rightarrow> Inr (int64_t (3 * hidden_size opts))
      | kRNN_TANH \<Rightarrow> Inr (hidden_size opts)
      | kRNN_RELU \<Rightarrow> Inr (hidden_size opts)
      | kUnrecognized \<Rightarrow> Inl (Unrecognized_RNN_mode (mode opts)))"

text \<open>Lines 223-233; lines 151-159 of reset are the same statements.\<close>

definition reset_flat_weights :: "RNNImplBase \<Rightarrow> RNNImplBase" where
  "reset_flat_weights m =
     m\<lparr>flat_weights :=
          map (\<lambda>wn. case map_of (named_parameters m) wn of Some t \<Rightarrow> t | None \<Rightarrow> None)
            (flat_weights_names m)\<rparr>"

text \<open>The loop of lines 182-188: false as soon as one weight is refused.\<close>

fun all_acceptable :: "torch \<Rightarrow> ScalarType option \<Rightarrow> Tensor list \<Rightarrow> bool" where
  "all_acceptable api dt [] = True"
| "all_acceptable api dt (fw # fws) =
     (if dtype_of fw \<noteq> dt \<or> \<not> is_cuda fw \<or> \<not> cudnn_is_acceptable api fw then False
      else all_acceptable api dt fws)"

text \<open>Lines 194-197: the set of data pointers, as the list of its elements.\<close>

definition unique_data_ptrs :: "Tensor list \<Rightarrow> nat list" where
  "unique_data_ptrs ws = remdups (map data_ptr_of ws)"

definition flatten_parameters :: "torch \<Rightarrow> RNNImplBase \<Rightarrow> RNNImplBase io" where
  "flatten_parameters api m =
     (if length (flat_weights m) \<noteq> length (flat_weights_names m) then ret m
      else (case flat_weights m of
              [] \<Rightarrow> raise Vector_index_out_of_range
            | first_fw # rest \<Rightarrow>
                if \<not> all_acceptable api (dtype_of first_fw) (flat_weights m) then ret m
                else if length (unique_data_ptrs (flat_weights m)) \<noteq> length (flat_weights m)
                then ret m
                else (case get_cudnn_mode_for_rnn (mode (options m)) of
                        Inl e \<Rightarrow> raise e
                      | Inr cudnn_mode \<Rightarrow>
                          bind_io
                            (emit (Cudnn_rnn_flatten_weight (flat_weights m)
                                     (if with_bias (options m) then 4 else 2)
                                     (input_size (options m)) cudnn_mode
                                     (hidden_size (options m)) (num_layers (options m))
                                     (batch_first (options m)) (bidirectional (options m))))
                            (\<lambda>u. ret m))))"

text \<open>
  Lines 259-265: \<open>init::uniform_\<close> on every parameter in turn; one that raises ends the
  call.
\<close>

fun uniform_each :: "torch \<Rightarrow> int \<Rightarrow> Tensor list \<Rightarrow> unit io" where
  "uniform_each api hs [] = ret ()"
| "uniform_each api hs (weight # weights) =
     (case init_uniform api weight hs of
        Inl e \<Rightarrow> raise e
      | Inr u \<Rightarrow> bind_io (emit (Uniform_init weight hs)) (\<lambda>u. uniform_each api hs weights))"

definition reset_parameters :: "torch \<Rightarrow> RNNImplBase \<Rightarrow> RNNImplBase io" where
  "reset_parameters api m =
     bind_io (uniform_each api (hidden_size (options m)) (map snd (named_parameters m)))
       (\<lambda>u. ret m)"

definition reset :: "torch \<Rightarrow> RNNImplBase \<Rightarrow> RNNImplBase io" where
  "reset api m =
     (let opts = options m; num_directions = (if bidirectional opts then 2 else 1)
      in if \<not> (double_le (Finite 0) (dropout opts) \<and> double_le (dropout opts) (Finite 1))
         then raise Dropout_out_of_range
         else bind_io
                (if double_less (Finite 0) (dropout opts) \<and> num_layers opts = 1
                 then emit (Warn_dropout (dropout opts) (num_layers opts)) else ret ())
                (\<lambda>u. case gate_size_of opts of
                        Inl e \<Rightarrow> raise e
                      | Inr gate_size \<Rightarrow>
                          (case reset_layers api opts gate_size num_directions 0
                                  (m\<lparr>flat_weights_names := [], all_weights := []\<rparr>) of
                             Inl e \<Rightarrow> raise e
                           | Inr m1 \<Rightarrow>
                               bind_io (flatten_parameters api (reset_flat_weights m1))
                                 (reset_parameters api))))"

text \<open>
  Lines 77-81: the constructor stores the options and calls reset. The module base
  class starts with no parameter and in training mode.
\<close>

definition RNNImplBase_new :: "torch \<Rightarrow> RNNOptionsBase \<Rightarrow> RNNImplBase io" where
  "RNNImplBase_new api opts =
     reset api \<lparr>options = opts, parameters = [], flat_weights_names = [],
                all_weights = [], flat_weights = [], is_training = True\<rparr>"

subsection \<open>forward (lines 319-377)\<close>

text \<open>
  A kernel event records the function that is called and the argument list as the
  source writes it. In the base class the function is \<open>_impl\<close>, a
  \<open>std::function<RNNFunctionSignature>\<close> made from the pointer that get_rnn_impl returns:
  the padded overload of \<open>rnn_tanh\<close> or \<open>rnn_relu\<close>, in both branches. Line 341 hands it
  the padded argument list; line 344 hands it the packed argument list, which does
  not fit its parameters, and the model records exactly that: the padded function with
  the packed list. \<open>RNNImplBase::forward_helper\<close> ends after reading \<open>output\<close> and
  \<open>hidden\<close> from the result, with no \<open>return\<close> statement: the call has no value.
\<close>

definition forward_helper ::
  "torch \<Rightarrow> RNNImplBase \<Rightarrow> Tensor \<Rightarrow> Tensor \<Rightarrow> Tensor \<Rightarrow> int \<Rightarrow> Tensor \<Rightarrow> (Tensor \<times> Tensor) io" where
  "forward_helper api m input bs sorted_idx max_batch_size hx0 =
     bind_io
       (lift (if \<not> defined hx0
              then (let num_directions = (if bidirectional (options m) then 2 else 1)
                    in torch_zeros api
                         [int64_t (num_layers (options m) * num_directions), max_batch_size,
                          hidden_size (options m)]
                         (dtype_of input) (device_of input))
              else Inr (permute_hidden api hx0 sorted_idx)))
       (\<lambda>hx. bind_io (lift (check_forward_args api m input hx bs))
          (\<lambda>m1. bind_io (lift (get_rnn_impl (mode (options m1))))
             (\<lambda>impl.
                if \<not> defined bs
                then (let args = Padded_arguments input [hx] (flat_weights m1)
                                   (bias (options m1)) (num_layers (options m1))
                                   (dropout (options m1)) (is_training m1)
                                   (bidirectional (options m1)) (batch_first (options m1));
                          result = torch_rnn api impl args;
                          output = fst result;
                          hidden = snd result
                      in bind_io (emit (Kernel impl args)) (\<lambda>u. raise No_return_value))
                else (let args = Packed_arguments input bs [hx] (flat_weights m1)
                                   (bias (options m1)) (num_layers (options m1))
                                   (dropout (options m1)) (is_training m1)
                                   (bidirectional (options m1));
                          result = torch_rnn api impl args;
                          output = fst result;
                          hidden = snd result
                      in bind_io (emit (Kernel impl args)) (\<lambda>u. raise No_return_value)))))"

definition forward ::
  "torch \<Rightarrow> RNNImplBase \<Rightarrow> Tensor \<Rightarrow> Tensor \<Rightarrow> (Tensor \<times> Tensor) io" where
  "forward api m input hx =
     (let bs = None; sorted_idx = None; unsorted_idx = None
      in bind_io
           (lift (if batch_first (options m) then tensor_size input 0 else tensor_size input 1))
           (\<lambda>max_batch_size.
              bind_io (forward_helper api m input bs sorted_idx max_batch_size hx)
                (\<lambda>r. case r of
                        (output, hidden) \<Rightarrow>
                          ret (output, permute_hidden api hidden unsorted_idx))))"

definition forward_packed ::
  "torch \<Rightarrow> RNNImplBase \<Rightarrow> PackedSequence \<Rightarrow> Tensor \<Rightarrow> (PackedSequence \<times> Tensor) io" where
  "forward_packed api m packed_input hx =
     (let input = data packed_input;
          bs = batch_sizes packed_input;
          sorted_idx = sorted_indices packed_input;
          unsorted_idx = unsorted_indices packed_input;
          max_batch_size = item_int64 api bs 0
      in bind_io (forward_helper api m input bs sorted_idx max_batch_size hx)
           (\<lambda>r. case r of
                   (output, hidden) \<Rightarrow>
                     (let output_packed =
                            \<lparr>data = output, batch_sizes = bs, sorted_indices = sorted_idx,
                             unsorted_indices = unsorted_idx\<rparr>
                      in ret (output_packed, permute_hidden api hidden unsorted_idx))))"

subsection \<open>LSTM forward (lines 472-536)\<close>

text \<open>
  \<open>torch::lstm\<close> and \<open>torch::gru\<close> are called by name: the call resolves to the overload
  whose parameters the argument list fits, the padded one in the first branch and the
  packed one in the second.
\<close>

definition LSTMImpl_forward_helper ::
  "torch \<Rightarrow> RNNImplBase \<Rightarrow> Tensor \<Rightarrow> Tensor \<Rightarrow> Tensor \<Rightarrow> int \<Rightarrow> (Tensor \<times> Tensor) option \<Rightarrow>
     (Tensor \<times> (Tensor \<times> Tensor)) io" where
  "LSTMImpl_forward_helper api m input bs sorted_idx max_batch_size hx_opt =
     bind_io
       (lift (case hx_opt of
                None \<Rightarrow>
                  (let num_directions = (if bidirectional (options m) then 2 else 1)
                   in case torch_zeros api
                             [int64_t (num_layers (options m) * num_directions),
                              max_batch_size, hidden_size (options m)]
                             (dtype_of input) (device_of input) of
                        Inl e \<Rightarrow> Inl e
                      | Inr zeros \<Rightarrow> Inr (zeros, zeros))
              | Some v \<Rightarrow> Inr (LSTMImpl_permute_hidden api v sorted_idx)))
       (\<lambda>hx. bind_io (lift (LSTMImpl_check_forward_args api m input hx bs))
          (\<lambda>m1.
             if \<not> defined bs
             then (let args = Padded_arguments input [fst hx, snd hx] (flat_weights m1)
                                (bias (options m1)) (num_layers (options m1))
                                (dropout (options m1)) (is_training m1)
                                (bidirectional (options m1)) (batch_first (options m1));
                       result = torch_lstm api (lstm, padded) args;
                       output = fst result;
                       hidden = (fst (snd result), snd (snd result))
                   in bind_io (emit (Kernel (lstm, padded) args)) (\<lambda>u. ret (output, hidden)))
             else (let args = Packed_arguments input bs [fst hx, snd hx] (flat_weights m1)
                                (bias (options m1)) (num_layers (options m1))
                                (dropout (options m1)) (is_training m1)
                                (bidirectional (options m1));
                       result = torch_lstm api (lstm, packed) args;
                       output = fst result;
                       hidden = (fst (snd result), snd (snd result))
                   in bind_io (emit (Kernel (lstm, packed) args))
                        (\<lambda>u. ret (output, hidden)))))"

definition LSTMImpl_forward ::
  "torch \<Rightarrow> RNNImplBase \<Rightarrow> Tensor \<Rightarrow> (Tensor \<times> Tensor) option \<Rightarrow>
     (Tensor \<times> (Tensor \<times> Tensor)) io" where
  "LSTMImpl_forward api m input hx_opt =
     (let bs = None; sorted_idx = None; unsorted_idx = None
      in bind_io
           (lift (if batch_first (options m) then tensor_size input 0 else tensor_size input 1))
           (\<lambda>max_batch_size.
              bind_io (LSTMImpl_forward_helper api m input bs sorted_idx max_batch_size hx_opt)
                (\<lambda>r. case r of
                        (output, hidden) \<Rightarrow>
                          ret (output, LSTMImpl_permute_hidden api hidden unsorted_idx))))"

definition LSTMImpl_forward_packed ::
  "torch \<Rightarrow> RNNImplBase \<Rightarrow> PackedSequence \<Rightarrow> (Tensor \<times> Tensor) option \<Rightarrow>
     (PackedSequence \<times> (Tensor \<times> Tensor)) io" where
  "LSTMImpl_forward_packed api m packed_input hx_opt =
     (let input = data packed_input;
          bs = batch_sizes packed_input;
          sorted_idx = sorted_indices packed_input;
          unsorted_idx = unsorted_indices packed_input;
          max_batch_size = item_int64 api bs 0
      in bind_io (LSTMImpl_forward_helper api m input bs sorted_idx max_batch_size hx_opt)
           (\<lambda>r. case r of
                   (output, hidden) \<Rightarrow>
                     (let output_packed =
                            \<lparr>data = output, batch_sizes = bs, sorted_indices = sorted_idx,
                             unsorted_indices = unsorted_idx\<rparr>
                      in ret (output_packed,
                              LSTMImpl_permute_hidden api hidden unsorted_idx))))"

subsection \<open>GRU forward (lines 553-608)\<close>

definition GRUImpl_forward_helper ::
  "torch \<Rightarrow> RNNImplBase \<Rightarrow> Tensor \<Rightarrow> Tensor \<Rightarrow> Tensor \<Rightarrow> int \<Rightarrow> Tensor \<Rightarrow> (Tensor \<times> Tensor) io" where
  "GRUImpl_forward_helper api m input bs sorted_idx max_batch_size hx0 =
     bind_io
       (lift (if \<not> defined hx0
              then (let num_directions = (if bidirectional (options m) then 2 else 1)
                    in torch_zeros api
                         [int64_t (num_layers (options m) * num_directions), max_batch_size,
                          hidden_size (options m)]
                         (dtype_of input) (device_of input))
              else Inr (permute_hidden api hx0 sorted_idx)))
       (\<lambda>hx. bind_io (lift (check_forward_args api m input hx bs))
          (\<lambda>m1.
             if \<not> defined bs
             then (let args = Padded_arguments input [hx] (flat_weights m1)
                                (bias (options m1)) (num_layers (options m1))
                                (dropout (options m1)) (is_training m1)
                                (bidirectional (options m1)) (batch_first (options m1));
                       result = torch_rnn api (gru, padded) args;
                       output = fst result;
                       hidden = snd result
                   in bind_io (emit (Kernel (gru, padded) args)) (\<lambda>u. ret (output, hidden)))
             else (let args = Packed_arguments input bs [hx] (flat_weights m1)
                                (bias (options m1)) (num_layers (options m1))
                                (dropout (options m1)) (is_training m1)
                                (bidirectional (options m1));
                       result = torch_rnn api (gru, packed) args;
                       output = fst result;
                       hidden = snd result
                   in bind_io (emit (Kernel (gru, packed) args))
                        (\<lambda>u. ret (output, hidden)))))"

definition GRUImpl_forward ::
  "torch \<Rightarrow> RNNImplBase \<Rightarrow> Tensor \<Rightarrow> Tensor \<Rightarrow> (Tensor \<times> Tensor) io" where
  "GRUImpl_forward api m input hx =
     (let bs = None; sorted_idx = None; unsorted_idx = None
      in bind_io
           (lift (if batch_first (options m) then tensor_size input 0 else tensor_size input 1))
           (\<lambda>max_batch_size.
              bind_io (GRUImpl_forward_helper api m input bs sorted_idx max_batch_size hx)
                (\<lambda>r. case r of
                        (output, hidden) \<Rightarrow>
                          ret (output, permute_hidden api hidden unsorted_idx))))"

definition GRUImpl_forward_packed ::
  "torch \<Rightarrow> RNNImplBase \<Rightarrow> PackedSequence \<Rightarrow> Tensor \<Rightarrow> (PackedSequence \<times> Tensor) io" where
  "GRUImpl_forward_packed api m packed_input hx =
     (let input = data packed_input;
          bs = batch_sizes packed_input;
          sorted_idx = sorted_indices packed_input;
          unsorted_idx = unsorted_indices packed_input;
          max_batch_size = item_int64 api bs 0
      in bind_io (GRUImpl_forward_helper api m input bs sorted_idx max_batch_size hx)
           (\<lambda>r. case r of
                   (output, hidden) \<Rightarrow>
                     (let output_packed =
                            \<lparr>data = output, batch_sizes = bs, sorted_indices = sorted_idx,
                             unsorted_indices = unsorted_idx\<rparr>
                      in ret (output_packed, permute_hidden api hidden unsorted_idx))))"

section \<open>The conditions of flatten_parameters, as the specification words them\<close>

text \<open>
  The flat weights are as many as their names, every flat weight has the element type
  of the first, every flat weight is a CUDA tensor that cuDNN accepts, and no two flat
  weights have the same data pointer.
\<close>

definition flatten_conditions :: "torch \<Rightarrow> RNNImplBase \<Rightarrow> bool" where
  "flatten_conditions api m \<longleftrightarrow>
     length (flat_weights m) = length (flat_weights_names m) \<and>
     list_all (\<lambda>fw. dtype_of fw = dtype_of (hd (flat_weights m))) (flat_weights m) \<and>
     list_all (\<lambda>fw. is_cuda fw \<and> cudnn_is_acceptable api fw) (flat_weights m) \<and>
     distinct (map data_ptr_of (flat_weights m))"

fun is_flatten_call :: "event \<Rightarrow> bool" where
  "is_flatten_call (Cudnn_rnn_flatten_weight ws stride isz cm hsz nl bf bd) = True"
| "is_flatten_call ev = False"

section \<open>Reading a kernel call\<close>

text \<open>
  The overload whose parameters an argument list fits, and the hidden state, the batch
  sizes and the flat weights in an argument list.
\<close>

fun fits :: "arguments \<Rightarrow> overload" where
  "fits (Padded_arguments input hx params has_biases layers p train bidir bf) = padded"
| "fits (Packed_arguments input bs hx params has_biases layers p train bidir) = packed"


text \<open>
  The argument list that the three helpers build from the module, the input, the batch
  sizes and the hidden state: the packed list when batch_sizes is defined, the padded
  one when it is not.
\<close>

definition arguments_of :: "RNNImplBase \<Rightarrow> Tensor \<Rightarrow> Tensor \<Rightarrow> Tensor list \<Rightarrow> arguments" where
  "arguments_of m input bs hxs =
     (if defined bs
      then Packed_arguments input bs hxs (flat_weights m) (bias (options m))
             (num_layers (options m)) (dropout (options m)) (is_training m)
             (bidirectional (options m))
      else Padded_arguments input hxs (flat_weights m) (bias (options m))
             (num_layers (options m)) (dropout (options m)) (is_training m)
             (bidirectional (options m)) (batch_first (options m)))"

text \<open>
  The shape of the initial hidden state: [num_layers * num_directions, max_batch_size,
  hidden_size], the product taken in \<open>int64_t\<close>.
\<close>

definition hidden_shape :: "RNNImplBase \<Rightarrow> int \<Rightarrow> int list" where
  "hidden_shape m max_batch_size =
     [int64_t (num_layers (options m) * (if bidirectional (options m) then 2 else 1)),
      max_batch_size, hidden_size (options m)]"

section \<open>The registered parameters, as the specification words them\<close>

text \<open>The suffix is \<open>_reverse\<close> for direction 1 and empty for direction 0.\<close>

definition direction_suffix :: "int \<Rightarrow> string" where
  "direction_suffix d = (if d = 1 then ''_reverse'' else [])"

text \<open>
  The names for one layer and direction, for a text \<open>L\<close> in the place of the layer
  number: weight_ih_l, weight_hh_l and, with biases, bias_ih_l and bias_hh_l, each
  followed by \<open>L\<close> and the suffix.
\<close>

definition layer_names :: "string \<Rightarrow> bool \<Rightarrow> int \<Rightarrow> string list" where
  "layer_names L b d =
     map (\<lambda>pre. pre @ L @ direction_suffix d)
       ([''weight_ih_l'', ''weight_hh_l''] @ (if b then [''bias_ih_l'', ''bias_hh_l''] else []))"

text \<open>
  The tensor that \<open>torch::empty\<close> returns for a shape (the undefined handle stands in
  where it raises).
\<close>

definition empty_tensor :: "torch \<Rightarrow> int list \<Rightarrow> Tensor" where
  "empty_tensor api shape = (case torch_empty api shape of Inr t \<Rightarrow> t | Inl e \<Rightarrow> None)"

text \<open>
  The layer input size is input_size for layer 0 and hidden_size * num_directions
  otherwise. The shapes allocated for a layer and direction are
  [gate_size, layer_input_size], [gate_size, hidden_size] and twice [gate_size].
\<close>

definition layer_input_size_of :: "RNNOptionsBase \<Rightarrow> int \<Rightarrow> int" where
  "layer_input_size_of opts l =
     (if l = 0 then input_size opts
      else int64_t (hidden_size opts * (if bidirectional opts then 2 else 1)))"

definition layer_shapes :: "RNNOptionsBase \<Rightarrow> int \<Rightarrow> int \<Rightarrow> int list list" where
  "layer_shapes opts gate_size l =
     [[gate_size, layer_input_size_of opts l], [gate_size, hidden_size opts], [gate_size],
      [gate_size]]"

text \<open>
  For layer \<open>l\<close> and direction \<open>d\<close>: weight_ih of shape [gate_size, layer_input_size],
  weight_hh of shape [gate_size, hidden_size] and, when bias is set, two bias tensors
  of shape [gate_size], under the names of that layer and direction in their order.
\<close>

definition layer_parameters ::
  "torch \<Rightarrow> RNNOptionsBase \<Rightarrow> int \<Rightarrow> int \<Rightarrow> int \<Rightarrow> (string \<times> Tensor) list" where
  "layer_parameters api opts gate_size l d =
     (let names = param_names api (bias opts) l d
      in [(names ! 0, empty_tensor api [gate_size, layer_input_size_of opts l]),
          (names ! 1, empty_tensor api [gate_size, hidden_size opts])] @
         (if bias opts
          then [(names ! 2, empty_tensor api [gate_size]),
                (names ! 3, empty_tensor api [gate_size])]
          else []))"

text \<open>All of them: layers 0 to num_layers - 1, and in each the directions 0 to num_directions - 1.\<close>

definition registered_parameters ::
  "torch \<Rightarrow> RNNOptionsBase \<Rightarrow> int \<Rightarrow> (string \<times> Tensor) list" where
  "registered_parameters api opts gate_size =
     concat (map (\<lambda>l. concat (map (\<lambda>d. layer_parameters api opts gate_size l d)
                                 [0..(if bidirectional opts then 2 else 1) - 1]))
               [0..num_layers opts - 1])"

definition registered_names :: "torch \<Rightarrow> RNNOptionsBase \<Rightarrow> string list" where
  "registered_names api opts =
     concat (map (\<lambda>l. concat (map (\<lambda>d. param_names api (bias opts) l d)
                                 [0..(if bidirectional opts then 2 else 1) - 1]))
               [0..num_layers opts - 1])"

definition weight_shapes :: "RNNOptionsBase \<Rightarrow> int \<Rightarrow> int list list" where
  "weight_shapes opts gate_size =
     concat (map (layer_shapes opts gate_size) [0..num_layers opts - 1])"

text \<open>The module after one pass of the loop body, and after the passes for a list of directions and layers.\<close>

definition add_layer_direction ::
  "torch \<Rightarrow> RNNOptionsBase \<Rightarrow> int \<Rightarrow> int \<Rightarrow> int \<Rightarrow> RNNImplBase \<Rightarrow> RNNImplBase" where
  "add_layer_direction api opts gate_size l d m =
     m\<lparr>parameters := parameters m @ layer_parameters api opts gate_size l d,
       flat_weights_names := flat_weights_names m @ param_names api (bias opts) l d,
       all_weights := all_weights m @ [param_names api (bias opts) l d]\<rparr>"

definition add_layer ::
  "torch \<Rightarrow> RNNOptionsBase \<Rightarrow> int \<Rightarrow> int \<Rightarrow> RNNImplBase \<Rightarrow> RNNImplBase" where
  "add_layer api opts gate_size l m =
     fold (add_layer_direction api opts gate_size l) [0..(if bidirectional opts then 2 else 1) - 1] m"

text \<open>The dropout probability lies in the closed interval from 0 to 1.\<close>

fun in_unit_interval :: "double \<Rightarrow> bool" where
  "in_unit_interval (Finite r) = (0 \<le> r \<and> r \<le> 1)"
| "in_unit_interval d = False"

text \<open>The warning of lines 93-99, when it is given.\<close>

definition dropout_warning :: "RNNOptionsBase \<Rightarrow> event list" where
  "dropout_warning opts =
     (if double_less (Finite 0) (dropout opts) \<and> num_layers opts = 1
      then [Warn_dropout (dropout opts) (num_layers opts)] else [])"

text \<open>The module that reset leaves when it returns.\<close>

definition reset_result :: "torch \<Rightarrow> RNNImplBase \<Rightarrow> int \<Rightarrow> RNNImplBase" where
  "reset_result api m gate_size =
     reset_flat_weights
       (fold (add_layer api (options m) gate_size) [0..num_layers (options m) - 1]
          (m\<lparr>flat_weights_names := [], all_weights := []\<rparr>))"

definition new_module :: "RNNOptionsBase \<Rightarrow> RNNImplBase" where
  "new_module opts =
     \<lparr>options = opts, parameters = [], flat_weights_names = [], all_weights = [],
      flat_weights = [], is_training = True\<rparr>"

text \<open>
  The framework accepts what the construction of a module asks of it: every
  \<open>torch::empty\<close> returns a tensor, no name is registered twice, and \<open>init::uniform_\<close>
  accepts every registered tensor.
\<close>

definition framework_accepts :: "torch \<Rightarrow> RNNOptionsBase \<Rightarrow> int \<Rightarrow> bool" where
  "framework_accepts api opts gate_size \<longleftrightarrow>
     list_all (\<lambda>shape. \<not> isl (torch_empty api shape)) (weight_shapes opts gate_size) \<and>
     distinct (registered_names api opts) \<and>
     list_all (\<lambda>w. \<not> isl (init_uniform api w (hidden_size opts)))
       (filter defined (map snd (registered_parameters api opts gate_size)))"

section \<open>Concrete values for evaluation\<close>

text \<open>
  One instance of the framework and a few tensors, options and modules, on which the
  functions above are evaluated. In this instance every allocation and initialisation
  succeeds and the text for a layer is its decimal numeral, as \<open>std::to_string\<close> writes
  it.
\<close>

definition digit_char :: "nat \<Rightarrow> char" where
  "digit_char n = ''0123456789'' ! n"

function string_of_nat :: "nat \<Rightarrow> string" where
  "string_of_nat n =
     (if n < 10 then [digit_char n] else string_of_nat (n div 10) @ [digit_char (n mod 10)])"
  by pat_completeness auto
termination
  by (relation "measure id") auto

declare string_of_nat.simps [simp del]

definition to_string :: "int \<Rightarrow> string" where
  "to_string i = (if i < 0 then CHR ''-'' # string_of_nat (nat (- i)) else string_of_nat (nat i))"

definition example_tensor :: "int list \<Rightarrow> Tensor" where
  "example_tensor shape = Some \<lparr>sizes = shape, dtype = kFloat, device = CPU, data_ptr = 7\<rparr>"

definition cuda_tensor :: "int list \<Rightarrow> nat \<Rightarrow> Tensor" where
  "cuda_tensor shape p = Some \<lparr>sizes = shape, dtype = kFloat, device = CUDA 0, data_ptr = p\<rparr>"

definition example_torch :: torch where
  "example_torch =
     \<lparr>allocate_empty =
        (\<lambda>shape. Inr (Some \<lparr>sizes = shape, dtype = kFloat, device = CPU, data_ptr = 1\<rparr>)),
      allocate_zeros =
        (\<lambda>shape dt dev.
           Inr (Some \<lparr>sizes = shape, dtype = (case dt of Some t \<Rightarrow> t | None \<Rightarrow> kFloat),
                      device = (case dev of Some d \<Rightarrow> d | None \<Rightarrow> CPU), data_ptr = 2\<rparr>)),
      init_uniform = (\<lambda>w hs. Inr ()),
      index_select = (\<lambda>t d idx. map_option (\<lambda>i. i\<lparr>data_ptr := 3\<rparr>) t),
      item_int64 = (\<lambda>t i. 2),
      cudnn_is_acceptable = (\<lambda>t. True),
      torch_rnn = (\<lambda>f a. (example_tensor [4], example_tensor [5])),
      torch_lstm = (\<lambda>f a. (example_tensor [4], example_tensor [5], example_tensor [6])),
      layer_text = to_string\<rparr>"

definition example_options :: "rnn_options_base_mode_t \<Rightarrow> RNNOptionsBase" where
  "example_options md =
     \<lparr>mode = md, input_size = 5, hidden_size = 3, num_layers = 2, bias = True,
      with_bias = True, batch_first = False, dropout = Finite 0, bidirectional = True\<rparr>"

definition example_module :: "rnn_options_base_mode_t \<Rightarrow> RNNImplBase" where
  "example_module md =
     \<lparr>options = example_options md, parameters = [], flat_weights_names = [],
      all_weights = [], flat_weights = [], is_training = True\<rparr>"

definition cuda_module :: RNNImplBase where
  "cuda_module =
     (example_module kGRU)\<lparr>flat_weights_names := [''weight_ih_l0'', ''weight_hh_l0''],
       flat_weights := [cuda_tensor [9, 5] 100, cuda_tensor [9, 3] 200]\<rparr>"

definition alias_module :: RNNImplBase where
  "alias_module =
     (example_module kGRU)\<lparr>flat_weights_names := [''weight_ih_l0'', ''weight_hh_l0''],
       flat_weights := [cuda_tensor [9, 5] 100, cuda_tensor [9, 3] 100]\<rparr>"

definition example_packed :: PackedSequence where
  "example_packed =
     \<lparr>data = example_tensor [9, 5], batch_sizes = example_tensor [3],
      sorted_indices = example_tensor [2], unsorted_indices = example_tensor [2]\<rparr>"

definition warned_options :: RNNOptionsBase where
  "warned_options =
     \<lparr>mode = kGRU, input_size = 5, hidden_size = 3, num_layers = 1, bias = True,
      with_bias = True, batch_first = False, dropout = Finite (1 / 2), bidirectional = False\<rparr>"

text \<open>Options with a negative hidden size, with no layer, and with a hidden size of \<open>2 ^ 62\<close>.\<close>

definition negative_options :: RNNOptionsBase where
  "negative_options =
     \<lparr>mode = kGRU, input_size = 5, hidden_size = - 1, num_layers = 1, bias = True,
      with_bias = True, batch_first = False, dropout = Finite 0, bidirectional = False\<rparr>"

definition no_layer_options :: RNNOptionsBase where
  "no_layer_options =
     \<lparr>mode = kLSTM, input_size = 5, hidden_size = 3, num_layers = 0, bias = True,
      with_bias = True, batch_first = False, dropout = Finite 0, bidirectional = False\<rparr>"

definition wide_options :: RNNOptionsBase where
  "wide_options =
     \<lparr>mode = kLSTM, input_size = 5, hidden_size = 2 ^ 62, num_layers = 2 ^ 62, bias = True,
      with_bias = True, batch_first = False, dropout = Finite 0, bidirectional = True\<rparr>"

section \<open>Shape checks: what is proved\<close>

lemmas ex_defs = example_module_def example_options_def example_tensor_def example_torch_def

lemma int64_t_id: "is_int64 i \<Longrightarrow> int64_t i = i"
  by (simp add: is_int64_def int64_t_def)

lemma int64_t_range: "is_int64 (int64_t i)"
  by (simp add: is_int64_def int64_t_def)

lemma tensor_dim_Some: "tensor_dim (Some i) = Inr (int (length (sizes i)))"
  by (simp add: tensor_dim_def)

lemma tensor_sizes_Some: "tensor_sizes (Some i) = Inr (sizes i)"
  by (simp add: tensor_sizes_def)

lemma check_input_Inr:
  "check_input m input bs = Inr m' \<longleftrightarrow>
     (m' = m \<and> tensor_dim input = Inr (if defined bs then 2 else 3) \<and>
      tensor_size input (- 1) = Inr (input_size (options m)))"
  by (cases "tensor_dim input"; cases "tensor_size input (- 1)")
     (auto simp: check_input_def Let_def)

lemma check_hidden_size_Inr:
  "check_hidden_size m hx (a, b, c) msg = Inr m' \<longleftrightarrow> (m' = m \<and> tensor_sizes hx = Inr [a, b, c])"
  by (cases "tensor_sizes hx") (auto simp: check_hidden_size_def)

lemma check_forward_args_Inr:
  "check_forward_args api m input hidden bs = Inr m' \<longleftrightarrow>
     m' = m \<and> check_input m input bs = Inr m \<and>
     (\<exists>a b c. get_expected_hidden_size api m input bs = Inr (a, b, c) \<and>
        tensor_sizes hidden = Inr [a, b, c])"
proof (cases "check_input m input bs")
  case (Inl e)
  then show ?thesis by (simp add: check_forward_args_def)
next
  case (Inr m1)
  then have "m1 = m" by (simp add: check_input_Inr)
  with Inr show ?thesis
    by (cases "get_expected_hidden_size api m input bs")
       (auto simp: check_forward_args_def check_hidden_size_Inr)
qed

lemma LSTMImpl_check_forward_args_Inr:
  "LSTMImpl_check_forward_args api m input (h0, c0) bs = Inr m' \<longleftrightarrow>
     m' = m \<and> check_input m input bs = Inr m \<and>
     (\<exists>a b c. get_expected_hidden_size api m input bs = Inr (a, b, c) \<and>
        tensor_sizes h0 = Inr [a, b, c] \<and> tensor_sizes c0 = Inr [a, b, c])"
proof (cases "check_input m input bs")
  case (Inl e)
  then show ?thesis by (simp add: LSTMImpl_check_forward_args_def)
next
  case (Inr m1)
  then have m1: "m1 = m" by (simp add: check_input_Inr)
  show ?thesis
  proof (cases "get_expected_hidden_size api m input bs")
    case (Inl e)
    with Inr m1 show ?thesis by (simp add: LSTMImpl_check_forward_args_def)
  next
    case ex: (Inr t)
    obtain a b c where t: "t = (a, b, c)" by (cases t) auto
    show ?thesis
    proof (cases "check_hidden_size m h0 (a, b, c) ''Expected hidden[0] size {1}, got {2}''")
      case (Inl e)
      then have "tensor_sizes h0 \<noteq> Inr [a, b, c]"
        using check_hidden_size_Inr [of m h0 a b c "''Expected hidden[0] size {1}, got {2}''" m]
        by auto
      with Inl Inr m1 ex t show ?thesis by (simp add: LSTMImpl_check_forward_args_def)
    next
      case h: (Inr m2)
      then have m2: "m2 = m" and s0: "tensor_sizes h0 = Inr [a, b, c]"
        by (simp_all add: check_hidden_size_Inr)
      have "LSTMImpl_check_forward_args api m input (h0, c0) bs =
              check_hidden_size m c0 (a, b, c) ''Expected hidden[1] size {1}, got {2}''"
        using h Inr m1 ex t m2 by (simp add: LSTMImpl_check_forward_args_def)
      then show ?thesis
        using Inr m1 ex t s0 by (auto simp: check_hidden_size_Inr)
    qed
  qed
qed

text \<open>
  C3. check_input raises an error if and only if \<open>input.dim()\<close> differs from the
  expected dimension (2 when batch_sizes is defined, 3 when it is not) or
  \<open>input.size(-1)\<close> differs from the configured input size; and a call that returns
  normally leaves the module as it was. A \<open>dim()\<close> or \<open>size(-1)\<close> that itself raises
  counts as differing.
\<close>

theorem check_input_raises_iff:
  "(isl (check_input m input bs) \<longleftrightarrow>
      (tensor_dim input \<noteq> Inr (if defined bs then 2 else 3) \<or>
       tensor_size input (- 1) \<noteq> Inr (input_size (options m)))) \<and>
   (\<not> isl (check_input m input bs) \<longleftrightarrow> check_input m input bs = Inr m)"
proof -
  have "isl (check_input m input bs) \<longleftrightarrow> (\<forall>m'. check_input m input bs \<noteq> Inr m')"
    by (cases "check_input m input bs") auto
  then show ?thesis
    by (auto simp: check_input_Inr)
qed

theorem check_input_raises_iff_witness:
  "check_input (example_module kLSTM) (example_tensor [7, 2, 5]) None =
     Inr (example_module kLSTM) \<and>
   isl (check_input (example_module kLSTM) (example_tensor [7, 2, 4]) None) \<and>
   isl (check_input (example_module kLSTM) (example_tensor [7, 5]) None) \<and>
   isl (check_input (example_module kLSTM) (example_tensor [7, 2, 5]) (example_tensor [3]))"
  using check_input_raises_iff [of "example_module kLSTM" "example_tensor [7, 2, 5]" None]
    check_input_raises_iff [of "example_module kLSTM" "example_tensor [7, 2, 4]" None]
    check_input_raises_iff [of "example_module kLSTM" "example_tensor [7, 5]" None]
    check_input_raises_iff [of "example_module kLSTM" "example_tensor [7, 2, 5]"
      "example_tensor [3]"]
  by (auto simp add: ex_defs tensor_dim_def tensor_size_def defined_def)



text \<open>
  C7. permute_hidden returns \<open>hx\<close> itself when the permutation is undefined and
  otherwise \<open>hx\<close> index-selected along dimension 1 by the permutation; the LSTM version
  does the same to both elements of the pair and returns the pair itself when the
  permutation is undefined.
\<close>

theorem permute_hidden_selects_dim_1:
  "permute_hidden api hx p = (if defined p then index_select api hx 1 p else hx) \<and>
   LSTMImpl_permute_hidden api (h, c) p =
     (if defined p then (index_select api h 1 p, index_select api c 1 p) else (h, c))"
  by (simp add: permute_hidden_def LSTMImpl_permute_hidden_def apply_permutation_def)

section \<open>flatten_parameters: what is proved\<close>

lemma all_acceptable_iff:
  "all_acceptable api dt ws \<longleftrightarrow>
     list_all (\<lambda>fw. dtype_of fw = dt \<and> is_cuda fw \<and> cudnn_is_acceptable api fw) ws"
  by (induction ws) auto

lemma unique_data_ptrs_length:
  "length (unique_data_ptrs ws) = length ws \<longleftrightarrow> distinct (map data_ptr_of ws)"
  unfolding unique_data_ptrs_def
  by (metis length_map length_remdups_eq remdups_id_iff_distinct)

lemma flatten_conditions_alt:
  "flatten_conditions api m \<longleftrightarrow>
     length (flat_weights m) = length (flat_weights_names m) \<and>
     all_acceptable api (dtype_of (hd (flat_weights m))) (flat_weights m) \<and>
     length (unique_data_ptrs (flat_weights m)) = length (flat_weights m)"
  unfolding flatten_conditions_def all_acceptable_iff unique_data_ptrs_length
  by (auto simp: list_all_iff)

lemma flatten_parameters_no_op:
  assumes "\<not> flatten_conditions api m"
  shows "flatten_parameters api m = ([], Inr m)"
proof (cases "flat_weights m")
  case Nil
  with assms show ?thesis
    by (auto simp: flatten_conditions_def flatten_parameters_def ret_def)
next
  case (Cons fw fws)
  with assms show ?thesis
    by (auto simp: flatten_conditions_alt flatten_parameters_def ret_def
             simp del: all_acceptable.simps)
qed

lemma flatten_parameters_call:
  assumes "list_ex is_flatten_call (fst (flatten_parameters api m))"
  shows "flatten_conditions api m"
proof (rule ccontr)
  assume "\<not> flatten_conditions api m"
  then have "flatten_parameters api m = ([], Inr m)" by (rule flatten_parameters_no_op)
  with assms show False by simp
qed

lemma flatten_parameters_does_call:
  assumes "flatten_conditions api m" and "flat_weights m \<noteq> []"
    and "get_cudnn_mode_for_rnn (mode (options m)) = Inr cm"
  shows "flatten_parameters api m =
           ([Cudnn_rnn_flatten_weight (flat_weights m) (if with_bias (options m) then 4 else 2)
               (input_size (options m)) cm (hidden_size (options m))
               (num_layers (options m)) (batch_first (options m)) (bidirectional (options m))],
            Inr m)"
proof -
  obtain fw fws where c: "flat_weights m = fw # fws"
    using assms(2) by (cases "flat_weights m") auto
  show ?thesis
    using assms(1,3) c
    by (simp add: flatten_conditions_alt flatten_parameters_def ret_def bind_io_def emit_def
             del: all_acceptable.simps)
qed


text \<open>
  C5. flatten_parameters calls \<open>_cudnn_rnn_flatten_weight\<close> only when the flat weights are
  as many as their names, all have the element type of the first, all are CUDA tensors
  that cuDNN accepts and no two share a data pointer; when one of these fails it returns
  early with no framework call and the module unchanged. With at least one flat weight
  and a mode cuDNN knows, the call is made when the conditions hold. (With no flat weight
  and no name the function reads element 0 of the empty vector.)
\<close>

theorem flatten_parameters_only_when:
  "(list_ex is_flatten_call (fst (flatten_parameters api m)) \<longrightarrow> flatten_conditions api m) \<and>
   (\<not> flatten_conditions api m \<longrightarrow> flatten_parameters api m = ([], Inr m)) \<and>
   (flatten_conditions api m \<and> flat_weights m \<noteq> [] \<and>
    get_cudnn_mode_for_rnn (mode (options m)) = Inr cm \<longrightarrow>
      fst (flatten_parameters api m) =
        [Cudnn_rnn_flatten_weight (flat_weights m) (if with_bias (options m) then 4 else 2)
           (input_size (options m)) cm (hidden_size (options m))
           (num_layers (options m)) (batch_first (options m)) (bidirectional (options m))])"
proof (intro conjI impI)
  assume "list_ex is_flatten_call (fst (flatten_parameters api m))"
  then show "flatten_conditions api m" by (rule flatten_parameters_call)
next
  assume "\<not> flatten_conditions api m"
  then show "flatten_parameters api m = ([], Inr m)" by (rule flatten_parameters_no_op)
next
  assume "flatten_conditions api m \<and> flat_weights m \<noteq> [] \<and>
    get_cudnn_mode_for_rnn (mode (options m)) = Inr cm"
  then show "fst (flatten_parameters api m) =
        [Cudnn_rnn_flatten_weight (flat_weights m) (if with_bias (options m) then 4 else 2)
           (input_size (options m)) cm (hidden_size (options m))
           (num_layers (options m)) (batch_first (options m)) (bidirectional (options m))]"
    using flatten_parameters_does_call [of api m cm] by simp
qed

theorem flatten_parameters_only_when_witness:
  "fst (flatten_parameters example_torch cuda_module) =
     [Cudnn_rnn_flatten_weight [cuda_tensor [9, 5] 100, cuda_tensor [9, 3] 200] 4 5 GRU 3 2 False True] \<and>
   flatten_conditions example_torch cuda_module \<and>
   \<not> flatten_conditions example_torch alias_module \<and>
   flatten_parameters example_torch alias_module = ([], Inr alias_module)"
proof -
  have c: "flatten_conditions example_torch cuda_module"
    by (simp add: flatten_conditions_def cuda_module_def ex_defs cuda_tensor_def dtype_of_def
        is_cuda_def data_ptr_of_def)
  have n: "\<not> flatten_conditions example_torch alias_module"
    by (simp add: flatten_conditions_def alias_module_def ex_defs cuda_tensor_def dtype_of_def
        is_cuda_def data_ptr_of_def)
  have g: "get_cudnn_mode_for_rnn (mode (options cuda_module)) = Inr GRU"
    by (simp add: cuda_module_def ex_defs)
  have w: "flat_weights cuda_module \<noteq> []" by (simp add: cuda_module_def)
  from flatten_parameters_only_when [of example_torch cuda_module GRU] c g w
  have "fst (flatten_parameters example_torch cuda_module) =
     [Cudnn_rnn_flatten_weight (flat_weights cuda_module) (if with_bias (options cuda_module) then 4 else 2)
           (input_size (options cuda_module)) GRU (hidden_size (options cuda_module))
           (num_layers (options cuda_module)) (batch_first (options cuda_module)) (bidirectional (options cuda_module))]"
    by blast
  then have 1: "fst (flatten_parameters example_torch cuda_module) =
     [Cudnn_rnn_flatten_weight [cuda_tensor [9, 5] 100, cuda_tensor [9, 3] 200] 4 5 GRU 3 2 False True]"
    by (simp add: cuda_module_def ex_defs)
  from flatten_parameters_only_when [of example_torch alias_module] n
  have 2: "flatten_parameters example_torch alias_module = ([], Inr alias_module)" by blast
  show ?thesis using 1 c n 2 by simp
qed


section \<open>forward: what is proved\<close>

lemmas io_defs = bind_io_def lift_def emit_def raise_def ret_def

lemma get_rnn_impl_cases:
  "get_rnn_impl kRNN_TANH = Inr (rnn_tanh, padded)"
  "get_rnn_impl kRNN_RELU = Inr (rnn_relu, padded)"
  "get_rnn_impl kLSTM = Inl (Unknown_mode kLSTM)" "get_rnn_impl kGRU = Inl (Unknown_mode kGRU)"
  "get_rnn_impl kUnrecognized = Inl (Unknown_mode kUnrecognized)"
  by (simp_all add: rnn_impls_at_def rnn_impls_def RNNFunctionSignature_def)

lemma rnn_impls_at_cases:
  "rnn_impls_at ''RNN_TANH'' = Inr (rnn_tanh, padded)"
  "rnn_impls_at ''RNN_RELU'' = Inr (rnn_relu, padded)"
  by (simp_all add: rnn_impls_at_def rnn_impls_def RNNFunctionSignature_def)

lemma get_rnn_impl_other:
  "md \<noteq> kRNN_TANH \<and> md \<noteq> kRNN_RELU \<Longrightarrow> get_rnn_impl md = Inl (Unknown_mode md)"
  by (cases md) (simp_all add: get_rnn_impl_cases)

lemma get_rnn_impl_padded: "get_rnn_impl md = Inr f \<Longrightarrow> snd f = padded"
  by (cases md) (auto simp: rnn_impls_at_def rnn_impls_def RNNFunctionSignature_def)

lemma check_forward_args_same: "check_forward_args api m input hx bs = Inr m1 \<Longrightarrow> m1 = m"
  by (simp add: check_forward_args_Inr)

lemma LSTMImpl_check_forward_args_same:
  "LSTMImpl_check_forward_args api m input hx bs = Inr m1 \<Longrightarrow> m1 = m"
  by (cases hx) (simp add: LSTMImpl_check_forward_args_Inr)

lemma bind_io_Inl: "bind_io (tr, Inl e) f = (tr, Inl e)"
  by (simp add: bind_io_def)

lemma bind_io_Inr: "bind_io (tr, Inr x) f = (tr @ fst (f x), snd (f x))"
  by (simp add: bind_io_def split: prod.splits)

lemma bind_io_lift_Inl: "bind_io (lift (Inl e)) f = ([], Inl e)"
  by (simp add: lift_def bind_io_Inl)

lemma bind_io_lift_Inr: "bind_io (lift (Inr x)) f = f x"
  by (simp add: lift_def bind_io_Inr)

lemma fits_arguments_of: "fits (arguments_of m input bs hxs) = (if defined bs then packed else padded)"
  by (simp add: arguments_of_def)


text \<open>The three helpers, once the initial hidden state is known.\<close>

lemma forward_helper_eq:
  assumes "(if \<not> defined hx0
            then torch_zeros api (hidden_shape m mbs) (dtype_of input) (device_of input)
            else Inr (permute_hidden api hx0 si)) = r"
  shows "forward_helper api m input bs si mbs hx0 =
     (case r of
        Inl e \<Rightarrow> ([], Inl e)
      | Inr hx \<Rightarrow>
          (case check_forward_args api m input hx bs of
             Inl e \<Rightarrow> ([], Inl e)
           | Inr m1 \<Rightarrow>
               (case get_rnn_impl (mode (options m)) of
                  Inl e \<Rightarrow> ([], Inl e)
                | Inr f \<Rightarrow> ([Kernel f (arguments_of m input bs [hx])], Inl No_return_value))))"
proof -
  have u: "forward_helper api m input bs si mbs hx0 =
      bind_io (lift r)
       (\<lambda>hx. bind_io (lift (check_forward_args api m input hx bs))
          (\<lambda>m1. bind_io (lift (get_rnn_impl (mode (options m1))))
             (\<lambda>impl. bind_io (emit (Kernel impl (arguments_of m1 input bs [hx])))
                        (\<lambda>u. raise No_return_value))))"
    unfolding forward_helper_def Let_def assms [symmetric] hidden_shape_def arguments_of_def
    by (cases "defined bs") simp_all
  show ?thesis
  proof (cases r)
    case (Inl e)
    then show ?thesis by (simp add: u bind_io_lift_Inl)
  next
    case hx: (Inr hx)
    show ?thesis
    proof (cases "check_forward_args api m input hx bs")
      case (Inl e)
      with hx show ?thesis by (simp add: u bind_io_lift_Inl bind_io_lift_Inr)
    next
      case (Inr m1)
      then have "m1 = m" by (rule check_forward_args_same)
      with Inr hx show ?thesis
        by (cases "get_rnn_impl (mode (options m))")
           (simp_all add: u bind_io_lift_Inl bind_io_lift_Inr emit_def raise_def bind_io_Inr)
    qed
  qed
qed

lemma GRUImpl_forward_helper_eq:
  assumes "(if \<not> defined hx0
            then torch_zeros api (hidden_shape m mbs) (dtype_of input) (device_of input)
            else Inr (permute_hidden api hx0 si)) = r"
  shows "GRUImpl_forward_helper api m input bs si mbs hx0 =
     (case r of
        Inl e \<Rightarrow> ([], Inl e)
      | Inr hx \<Rightarrow>
          (case check_forward_args api m input hx bs of
             Inl e \<Rightarrow> ([], Inl e)
           | Inr m1 \<Rightarrow>
               ([Kernel (gru, if defined bs then packed else padded)
                   (arguments_of m input bs [hx])],
                Inr (torch_rnn api (gru, if defined bs then packed else padded)
                       (arguments_of m input bs [hx])))))"
proof -
  have u: "GRUImpl_forward_helper api m input bs si mbs hx0 =
      bind_io (lift r)
       (\<lambda>hx. bind_io (lift (check_forward_args api m input hx bs))
          (\<lambda>m1. bind_io (emit (Kernel (gru, if defined bs then packed else padded)
                                  (arguments_of m1 input bs [hx])))
                   (\<lambda>u. ret (torch_rnn api (gru, if defined bs then packed else padded)
                                (arguments_of m1 input bs [hx])))))"
    unfolding GRUImpl_forward_helper_def Let_def assms [symmetric] hidden_shape_def
      arguments_of_def
    by (cases "defined bs") simp_all
  show ?thesis
  proof (cases r)
    case (Inl e)
    then show ?thesis by (simp add: u bind_io_lift_Inl)
  next
    case hx: (Inr hx)
    show ?thesis
    proof (cases "check_forward_args api m input hx bs")
      case (Inl e)
      with hx show ?thesis by (simp add: u bind_io_lift_Inl bind_io_lift_Inr)
    next
      case (Inr m1)
      then have "m1 = m" by (rule check_forward_args_same)
      with Inr hx show ?thesis
        by (simp add: u bind_io_lift_Inr emit_def ret_def bind_io_Inr)
    qed
  qed
qed

lemma LSTMImpl_forward_helper_eq:
  assumes "(case hx_opt of
              None \<Rightarrow>
                (case torch_zeros api (hidden_shape m mbs) (dtype_of input) (device_of input) of
                   Inl e \<Rightarrow> Inl e
                 | Inr zeros \<Rightarrow> Inr (zeros, zeros))
            | Some v \<Rightarrow> Inr (LSTMImpl_permute_hidden api v si)) = r"
  shows "LSTMImpl_forward_helper api m input bs si mbs hx_opt =
     (case r of
        Inl e \<Rightarrow> ([], Inl e)
      | Inr hx \<Rightarrow>
          (case LSTMImpl_check_forward_args api m input hx bs of
             Inl e \<Rightarrow> ([], Inl e)
           | Inr m1 \<Rightarrow>
               (let f = (lstm, if defined bs then packed else padded);
                    args = arguments_of m input bs [fst hx, snd hx];
                    result = torch_lstm api f args
                in ([Kernel f args], Inr (fst result, (fst (snd result), snd (snd result)))))))"
proof -
  have u: "LSTMImpl_forward_helper api m input bs si mbs hx_opt =
      bind_io (lift r)
       (\<lambda>hx. bind_io (lift (LSTMImpl_check_forward_args api m input hx bs))
          (\<lambda>m1. bind_io (emit (Kernel (lstm, if defined bs then packed else padded)
                                  (arguments_of m1 input bs [fst hx, snd hx])))
                   (\<lambda>u. ret (fst (torch_lstm api (lstm, if defined bs then packed else padded)
                                     (arguments_of m1 input bs [fst hx, snd hx])),
                              (fst (snd (torch_lstm api (lstm, if defined bs then packed else padded)
                                     (arguments_of m1 input bs [fst hx, snd hx]))),
                               snd (snd (torch_lstm api (lstm, if defined bs then packed else padded)
                                     (arguments_of m1 input bs [fst hx, snd hx]))))))))"
    unfolding LSTMImpl_forward_helper_def Let_def assms [symmetric] hidden_shape_def
      arguments_of_def
    by (cases "defined bs") simp_all
  show ?thesis
  proof (cases r)
    case (Inl e)
    then show ?thesis by (simp add: u bind_io_lift_Inl)
  next
    case hx: (Inr hx)
    show ?thesis
    proof (cases "LSTMImpl_check_forward_args api m input hx bs")
      case (Inl e)
      with hx show ?thesis by (simp add: u bind_io_lift_Inl bind_io_lift_Inr)
    next
      case (Inr m1)
      then have "m1 = m" by (rule LSTMImpl_check_forward_args_same)
      with Inr hx show ?thesis
        by (simp add: u bind_io_lift_Inr emit_def ret_def bind_io_Inr Let_def)
    qed
  qed
qed

text \<open>
  C1. get_rnn_impl returns a function for kRNN_TANH and for kRNN_RELU, the padded
  overload of \<open>rnn_tanh\<close> and of \<open>rnn_relu\<close>, and raises for every other mode. When the
  hidden state is there and the checks pass, RNNImplBase::forward_helper makes one
  kernel call, to the function get_rnn_impl returns for the mode of the module, and
  for any other mode it raises and calls nothing; the function it calls is the padded
  overload also when batch_sizes is defined and the argument list is the packed one.
  LSTMImpl::forward_helper calls \<open>lstm\<close> and GRUImpl::forward_helper calls \<open>gru\<close>, each
  the packed overload exactly when batch_sizes is defined.
\<close>

theorem forward_helper_dispatch:
  "get_rnn_impl kRNN_TANH = Inr (rnn_tanh, padded) \<and>
   get_rnn_impl kRNN_RELU = Inr (rnn_relu, padded) \<and>
   (md \<noteq> kRNN_TANH \<and> md \<noteq> kRNN_RELU \<longrightarrow> get_rnn_impl md = Inl (Unknown_mode md)) \<and>
   ((if \<not> defined hx0
     then torch_zeros api (hidden_shape m mbs) (dtype_of input) (device_of input)
     else Inr (permute_hidden api hx0 si)) = Inr hx \<and>
    check_forward_args api m input hx bs = Inr m \<longrightarrow>
      (get_rnn_impl (mode (options m)) = Inr f \<longrightarrow>
         snd f = padded \<and>
         (\<exists>args. fst (forward_helper api m input bs si mbs hx0) = [Kernel f args] \<and>
                 fits args = (if defined bs then packed else padded))) \<and>
      (mode (options m) \<noteq> kRNN_TANH \<and> mode (options m) \<noteq> kRNN_RELU \<longrightarrow>
         forward_helper api m input bs si mbs hx0 =
           ([], Inl (Unknown_mode (mode (options m))))) \<and>
      (\<exists>args. fst (GRUImpl_forward_helper api m input bs si mbs hx0) =
                [Kernel (gru, if defined bs then packed else padded) args] \<and>
              fits args = (if defined bs then packed else padded))) \<and>
   ((case hx_opt of
       None \<Rightarrow>
         (case torch_zeros api (hidden_shape m mbs) (dtype_of input) (device_of input) of
            Inl e \<Rightarrow> Inl e
          | Inr zeros \<Rightarrow> Inr (zeros, zeros))
     | Some v \<Rightarrow> Inr (LSTMImpl_permute_hidden api v si)) = Inr hxs \<and>
    LSTMImpl_check_forward_args api m input hxs bs = Inr m \<longrightarrow>
      (\<exists>args. fst (LSTMImpl_forward_helper api m input bs si mbs hx_opt) =
                [Kernel (lstm, if defined bs then packed else padded) args] \<and>
              fits args = (if defined bs then packed else padded)))"
proof (intro conjI impI)
  show "get_rnn_impl kRNN_TANH = Inr (rnn_tanh, padded)"
    and "get_rnn_impl kRNN_RELU = Inr (rnn_relu, padded)"
    by (simp_all add: rnn_impls_at_cases)
next
  assume "md \<noteq> kRNN_TANH \<and> md \<noteq> kRNN_RELU"
  then show "get_rnn_impl md = Inl (Unknown_mode md)" by (rule get_rnn_impl_other)
next
  assume a: "(if \<not> defined hx0
     then torch_zeros api (hidden_shape m mbs) (dtype_of input) (device_of input)
     else Inr (permute_hidden api hx0 si)) = Inr hx \<and>
    check_forward_args api m input hx bs = Inr m"
  assume f: "get_rnn_impl (mode (options m)) = Inr f"
  then show "snd f = padded" by (rule get_rnn_impl_padded)
  have "fst (forward_helper api m input bs si mbs hx0) = [Kernel f (arguments_of m input bs [hx])]"
    using a f by (simp add: forward_helper_eq [OF refl])
  then show "\<exists>args. fst (forward_helper api m input bs si mbs hx0) = [Kernel f args] \<and>
                 fits args = (if defined bs then packed else padded)"
    using fits_arguments_of by blast
next
  assume a: "(if \<not> defined hx0
     then torch_zeros api (hidden_shape m mbs) (dtype_of input) (device_of input)
     else Inr (permute_hidden api hx0 si)) = Inr hx \<and>
    check_forward_args api m input hx bs = Inr m"
  assume "mode (options m) \<noteq> kRNN_TANH \<and> mode (options m) \<noteq> kRNN_RELU"
  then have "get_rnn_impl (mode (options m)) = Inl (Unknown_mode (mode (options m)))"
    by (rule get_rnn_impl_other)
  with a show "forward_helper api m input bs si mbs hx0 =
           ([], Inl (Unknown_mode (mode (options m))))"
    by (simp add: forward_helper_eq [OF refl])
next
  assume a: "(if \<not> defined hx0
     then torch_zeros api (hidden_shape m mbs) (dtype_of input) (device_of input)
     else Inr (permute_hidden api hx0 si)) = Inr hx \<and>
    check_forward_args api m input hx bs = Inr m"
  then have "fst (GRUImpl_forward_helper api m input bs si mbs hx0) =
      [Kernel (gru, if defined bs then packed else padded) (arguments_of m input bs [hx])]"
    by (simp add: GRUImpl_forward_helper_eq [OF refl])
  then show "\<exists>args. fst (GRUImpl_forward_helper api m input bs si mbs hx0) =
                [Kernel (gru, if defined bs then packed else padded) args] \<and>
              fits args = (if defined bs then packed else padded)"
    using fits_arguments_of by blast
next
  assume a: "(case hx_opt of
       None \<Rightarrow>
         (case torch_zeros api (hidden_shape m mbs) (dtype_of input) (device_of input) of
            Inl e \<Rightarrow> Inl e
          | Inr zeros \<Rightarrow> Inr (zeros, zeros))
     | Some v \<Rightarrow> Inr (LSTMImpl_permute_hidden api v si)) = Inr hxs \<and>
    LSTMImpl_check_forward_args api m input hxs bs = Inr m"
  then have "fst (LSTMImpl_forward_helper api m input bs si mbs hx_opt) =
      [Kernel (lstm, if defined bs then packed else padded)
         (arguments_of m input bs [fst hxs, snd hxs])]"
    by (simp add: LSTMImpl_forward_helper_eq [OF refl] Let_def)
  then show "\<exists>args. fst (LSTMImpl_forward_helper api m input bs si mbs hx_opt) =
                [Kernel (lstm, if defined bs then packed else padded) args] \<and>
              fits args = (if defined bs then packed else padded)"
    using fits_arguments_of by blast
qed

lemmas eval_defs = ex_defs check_input_def hidden_shape_def torch_zeros_def
  get_expected_hidden_size_def tensor_dim_def tensor_size_def tensor_sizes_def defined_def
  dtype_of_def device_of_def permute_hidden_def LSTMImpl_permute_hidden_def
  apply_permutation_def rnn_impls_at_def rnn_impls_def RNNFunctionSignature_def
  int64_t_def arguments_of_def

lemma example_zeros:
  "torch_zeros example_torch (hidden_shape (example_module md) 2)
     (dtype_of (example_tensor s)) (device_of (example_tensor s)) =
   Inr (Some \<lparr>sizes = [4, 2, 3], dtype = kFloat, device = CPU, data_ptr = 2\<rparr>)"
  by (simp add: eval_defs)

lemma example_checks:
  "check_forward_args example_torch (example_module md) (example_tensor [7, 2, 5])
     (Some \<lparr>sizes = [4, 2, 3], dtype = kFloat, device = CPU, data_ptr = 2\<rparr>) None =
     Inr (example_module md)"
  "check_forward_args example_torch (example_module md) (example_tensor [9, 5])
     (Some \<lparr>sizes = [4, 2, 3], dtype = kFloat, device = CPU, data_ptr = 2\<rparr>)
     (example_tensor [3]) = Inr (example_module md)"
  "check_forward_args example_torch (example_module md) (example_tensor [9, 5])
     (permute_hidden example_torch (example_tensor [4, 2, 3]) (example_tensor [2]))
     (example_tensor [3]) = Inr (example_module md)"
  "LSTMImpl_check_forward_args example_torch (example_module md) (example_tensor [7, 2, 5])
     (Some \<lparr>sizes = [4, 2, 3], dtype = kFloat, device = CPU, data_ptr = 2\<rparr>,
      Some \<lparr>sizes = [4, 2, 3], dtype = kFloat, device = CPU, data_ptr = 2\<rparr>)
     None = Inr (example_module md)"
  "LSTMImpl_check_forward_args example_torch (example_module md) (example_tensor [9, 5])
     (LSTMImpl_permute_hidden example_torch (example_tensor [4, 2, 3], example_tensor [4, 2, 3])
        (example_tensor [2]))
     (example_tensor [3]) = Inr (example_module md)"
  by (simp_all add: check_forward_args_Inr LSTMImpl_check_forward_args_Inr eval_defs)

theorem forward_helper_dispatch_witness:
  "(\<exists>args. fst (forward_helper example_torch (example_module kRNN_TANH)
                  (example_tensor [7, 2, 5]) None None 2 None) =
             [Kernel (rnn_tanh, padded) args] \<and> fits args = padded) \<and>
   (\<exists>args. fst (forward_helper example_torch (example_module kRNN_RELU)
                  (example_tensor [9, 5]) (example_tensor [3]) (example_tensor [2]) 2
                  (example_tensor [4, 2, 3])) =
             [Kernel (rnn_relu, padded) args] \<and> fits args = packed) \<and>
   forward_helper example_torch (example_module kGRU) (example_tensor [7, 2, 5])
     None None 2 None = ([], Inl (Unknown_mode kGRU)) \<and>
   (\<exists>args. fst (GRUImpl_forward_helper example_torch (example_module kGRU)
                  (example_tensor [9, 5]) (example_tensor [3]) (example_tensor [2]) 2
                  (example_tensor [4, 2, 3])) =
             [Kernel (gru, packed) args] \<and> fits args = packed) \<and>
   (\<exists>args. fst (LSTMImpl_forward_helper example_torch (example_module kLSTM)
                  (example_tensor [7, 2, 5]) None None 2 None) =
             [Kernel (lstm, padded) args] \<and> fits args = padded) \<and>
   (\<exists>args. fst (LSTMImpl_forward_helper example_torch (example_module kLSTM)
                  (example_tensor [9, 5]) (example_tensor [3]) (example_tensor [2]) 2
                  (Some (example_tensor [4, 2, 3], example_tensor [4, 2, 3]))) =
             [Kernel (lstm, packed) args] \<and> fits args = packed)"
proof -
  let ?z = "Some \<lparr>sizes = [4, 2, 3], dtype = kFloat, device = CPU, data_ptr = 2\<rparr>"
  let ?i = "example_tensor [7, 2, 5]"
  let ?p = "example_tensor [9, 5]"
  let ?h = "example_tensor [4, 2, 3]"
  have d: "\<not> defined None" "defined (example_tensor s)" for s
    by (simp_all add: defined_def example_tensor_def)
  have md: "mode (options (example_module k)) = k" for k
    by (simp add: ex_defs)
  note t1 = forward_helper_dispatch [where api = example_torch
      and m = "example_module kRNN_TANH" and input = ?i and bs = None
      and si = None and mbs = 2 and ?hx0.0 = None and hx = ?z and f = "(rnn_tanh, padded)"]
  note t2 = forward_helper_dispatch [where api = example_torch
      and m = "example_module kRNN_RELU" and input = ?p
      and bs = "example_tensor [3]" and si = "example_tensor [2]" and mbs = 2
      and ?hx0.0 = ?h and hx = "permute_hidden example_torch ?h (example_tensor [2])"
      and f = "(rnn_relu, padded)"]
  note t3 = forward_helper_dispatch [where api = example_torch
      and m = "example_module kGRU" and input = ?i and bs = None
      and si = None and mbs = 2 and ?hx0.0 = None and hx = ?z]
  note t4 = forward_helper_dispatch [where api = example_torch
      and m = "example_module kGRU" and input = ?p
      and bs = "example_tensor [3]" and si = "example_tensor [2]" and mbs = 2
      and ?hx0.0 = ?h and hx = "permute_hidden example_torch ?h (example_tensor [2])"]
  note t5 = forward_helper_dispatch [where api = example_torch
      and m = "example_module kLSTM" and input = ?i and bs = None
      and si = None and mbs = 2 and hx_opt = None and hxs = "(?z, ?z)"]
  note t6 = forward_helper_dispatch [where api = example_torch
      and m = "example_module kLSTM" and input = ?p
      and bs = "example_tensor [3]" and si = "example_tensor [2]" and mbs = 2
      and hx_opt = "Some (?h, ?h)"
      and hxs = "LSTMImpl_permute_hidden example_torch (?h, ?h) (example_tensor [2])"]
  have 1: "\<exists>args. fst (forward_helper example_torch (example_module kRNN_TANH) ?i None None 2 None) =
             [Kernel (rnn_tanh, padded) args] \<and> fits args = padded"
    using t1 d example_zeros [of kRNN_TANH "[7, 2, 5]"] example_checks(1) [of kRNN_TANH]
    by (simp add: md rnn_impls_at_cases)
  have 2: "\<exists>args. fst (forward_helper example_torch (example_module kRNN_RELU) ?p
                  (example_tensor [3]) (example_tensor [2]) 2 ?h) =
             [Kernel (rnn_relu, padded) args] \<and> fits args = packed"
    using t2 d example_checks(3) [of kRNN_RELU]
    by (simp add: md rnn_impls_at_cases)
  have 3: "forward_helper example_torch (example_module kGRU) ?i None None 2 None =
             ([], Inl (Unknown_mode kGRU))"
    using t3 d example_zeros [of kGRU "[7, 2, 5]"] example_checks(1) [of kGRU]
    by (simp add: md)
  have 4: "\<exists>args. fst (GRUImpl_forward_helper example_torch (example_module kGRU) ?p
                  (example_tensor [3]) (example_tensor [2]) 2 ?h) =
             [Kernel (gru, packed) args] \<and> fits args = packed"
    using t4 d example_checks(3) [of kGRU]
    by (simp add: md)
  have 5: "\<exists>args. fst (LSTMImpl_forward_helper example_torch (example_module kLSTM) ?i None None 2 None) =
             [Kernel (lstm, padded) args] \<and> fits args = padded"
    using t5 d example_zeros [of kLSTM "[7, 2, 5]"] example_checks(4) [of kLSTM]
    by (simp add: md)
  have 6: "\<exists>args. fst (LSTMImpl_forward_helper example_torch (example_module kLSTM) ?p
                  (example_tensor [3]) (example_tensor [2]) 2 (Some (?h, ?h))) =
             [Kernel (lstm, packed) args] \<and> fits args = packed"
    using t6 d example_checks(5) [of kLSTM]
    by (simp add: md)
  show ?thesis using 1 2 3 4 5 6 by blast
qed









lemma forward_helper_never_returns:
  "isl (snd (forward_helper api m input bs si mbs hx0))"
  by (simp add: forward_helper_eq [OF refl] split: sum.splits)

lemma bind_io_never_returns: "isl (snd c) \<Longrightarrow> isl (snd (bind_io c f))"
  by (cases c; cases "snd c") (auto simp: bind_io_def)

lemma forward_packed_never_returns: "isl (snd (forward_packed api m packed_input hx))"
  unfolding forward_packed_def Let_def
  by (rule bind_io_never_returns) (rule forward_helper_never_returns)

lemma forward_never_returns: "isl (snd (forward api m input hx))"
proof (cases "if batch_first (options m) then tensor_size input 0 else tensor_size input 1")
  case (Inl e)
  then show ?thesis
    unfolding forward_def Let_def by (simp add: lift_def bind_io_Inl)
next
  case (Inr n)
  have "isl (snd (bind_io (forward_helper api m input None None n hx)
            (\<lambda>r. case r of (output, hidden) \<Rightarrow> ret (output, permute_hidden api hidden None))))"
    by (rule bind_io_never_returns) (rule forward_helper_never_returns)
  with Inr show ?thesis
    unfolding forward_def Let_def by (simp add: lift_def bind_io_Inr)
qed

text \<open>
  C8, for the base class: on a packed input that passes every check, with the mode a
  kernel exists for, forward calls the function found for the mode, with the zero
  hidden state shaped by \<open>batch_sizes[0]\<close>, and then has no value to return: no output is
  packed and no hidden state is permuted.
\<close>

theorem forward_packed_no_return:
  "forward_packed example_torch (example_module kRNN_TANH) example_packed None =
     ([Kernel (rnn_tanh, padded)
         (Packed_arguments (example_tensor [9, 5]) (example_tensor [3])
            [Some \<lparr>sizes = [4, 2, 3], dtype = kFloat, device = CPU, data_ptr = 2\<rparr>]
            [] True 2 (Finite 0) True True)],
      Inl No_return_value)"
proof -
  let ?m = "example_module kRNN_TANH"
  have "forward_helper example_torch ?m (example_tensor [9, 5]) (example_tensor [3])
          (example_tensor [2]) 2 None =
     ([Kernel (rnn_tanh, padded)
         (Packed_arguments (example_tensor [9, 5]) (example_tensor [3])
            [Some \<lparr>sizes = [4, 2, 3], dtype = kFloat, device = CPU, data_ptr = 2\<rparr>]
            [] True 2 (Finite 0) True True)],
      Inl No_return_value)"
  proof -
    have d: "defined (example_tensor [3])" "\<not> defined None"
      by (simp_all add: defined_def example_tensor_def)
    have md: "mode (options ?m) = kRNN_TANH" by (simp add: ex_defs)
    have a: "arguments_of ?m (example_tensor [9, 5]) (example_tensor [3]) hxs =
        Packed_arguments (example_tensor [9, 5]) (example_tensor [3]) hxs
          [] True 2 (Finite 0) True True" for hxs
      by (simp add: arguments_of_def d) (simp add: ex_defs)
    show ?thesis
      using example_zeros [of kRNN_TANH "[9, 5]"] example_checks(2) [of kRNN_TANH]
      by (simp add: forward_helper_eq [OF refl] rnn_impls_at_cases d md a)
  qed
  moreover have "item_int64 example_torch (example_tensor [3]) 0 = 2"
    by (simp add: ex_defs)
  ultimately show ?thesis
    unfolding forward_packed_def Let_def example_packed_def
    by (simp add: bind_io_Inl)
qed

text \<open>
  The LSTM and GRU versions return: the helper is handed \<open>batch_sizes[0]\<close> as the
  maximal batch size and the sorted indices of the input, the output is packed with the
  batch sizes and the two index tensors of the input, and the final hidden state is
  permuted by the unsorted indices.
\<close>

lemma LSTMImpl_forward_packed_result:
  assumes "LSTMImpl_forward_packed api m p hx_opt = (tr, Inr (out, hid))"
  shows "\<exists>tr' output hidden.
           LSTMImpl_forward_helper api m (data p) (batch_sizes p) (sorted_indices p)
             (item_int64 api (batch_sizes p) 0) hx_opt = (tr', Inr (output, hidden)) \<and>
           tr = tr' \<and>
           out = \<lparr>data = output, batch_sizes = batch_sizes p,
                  sorted_indices = sorted_indices p, unsorted_indices = unsorted_indices p\<rparr> \<and>
           hid = LSTMImpl_permute_hidden api hidden (unsorted_indices p)"
proof -
  obtain tr' r where h: "LSTMImpl_forward_helper api m (data p) (batch_sizes p)
      (sorted_indices p) (item_int64 api (batch_sizes p) 0) hx_opt = (tr', r)"
    by (cases "LSTMImpl_forward_helper api m (data p) (batch_sizes p)
      (sorted_indices p) (item_int64 api (batch_sizes p) 0) hx_opt") auto
  show ?thesis
  proof (cases r)
    case (Inl e)
    with assms h show ?thesis
      unfolding LSTMImpl_forward_packed_def Let_def by (simp add: bind_io_Inl)
  next
    case (Inr v)
    with assms h show ?thesis
      unfolding LSTMImpl_forward_packed_def Let_def
      by (cases v) (auto simp: bind_io_Inr ret_def)
  qed
qed

lemma GRUImpl_forward_packed_result:
  assumes "GRUImpl_forward_packed api m p hx0 = (tr, Inr (out, hid))"
  shows "\<exists>tr' output hidden.
           GRUImpl_forward_helper api m (data p) (batch_sizes p) (sorted_indices p)
             (item_int64 api (batch_sizes p) 0) hx0 = (tr', Inr (output, hidden)) \<and>
           tr = tr' \<and>
           out = \<lparr>data = output, batch_sizes = batch_sizes p,
                  sorted_indices = sorted_indices p, unsorted_indices = unsorted_indices p\<rparr> \<and>
           hid = permute_hidden api hidden (unsorted_indices p)"
proof -
  obtain tr' r where h: "GRUImpl_forward_helper api m (data p) (batch_sizes p)
      (sorted_indices p) (item_int64 api (batch_sizes p) 0) hx0 = (tr', r)"
    by (cases "GRUImpl_forward_helper api m (data p) (batch_sizes p)
      (sorted_indices p) (item_int64 api (batch_sizes p) 0) hx0") auto
  show ?thesis
  proof (cases r)
    case (Inl e)
    with assms h show ?thesis
      unfolding GRUImpl_forward_packed_def Let_def by (simp add: bind_io_Inl)
  next
    case (Inr v)
    with assms h show ?thesis
      unfolding GRUImpl_forward_packed_def Let_def
      by (cases v) (auto simp: bind_io_Inr ret_def)
  qed
qed

lemma GRUImpl_forward_packed_example:
  "GRUImpl_forward_packed example_torch (example_module kGRU) example_packed None =
     ([Kernel (gru, packed)
         (Packed_arguments (example_tensor [9, 5]) (example_tensor [3])
            [Some \<lparr>sizes = [4, 2, 3], dtype = kFloat, device = CPU, data_ptr = 2\<rparr>]
            [] True 2 (Finite 0) True True)],
      Inr (\<lparr>data = example_tensor [4], batch_sizes = example_tensor [3],
             sorted_indices = example_tensor [2], unsorted_indices = example_tensor [2]\<rparr>,
           index_select example_torch (example_tensor [5]) 1 (example_tensor [2])))"
proof -
  let ?m = "example_module kGRU"
  have "GRUImpl_forward_helper example_torch ?m (example_tensor [9, 5]) (example_tensor [3])
          (example_tensor [2]) 2 None =
     ([Kernel (gru, packed)
         (Packed_arguments (example_tensor [9, 5]) (example_tensor [3])
            [Some \<lparr>sizes = [4, 2, 3], dtype = kFloat, device = CPU, data_ptr = 2\<rparr>]
            [] True 2 (Finite 0) True True)],
      Inr (example_tensor [4], example_tensor [5]))"
  proof -
    have d: "defined (example_tensor [3])" "\<not> defined None"
      by (simp_all add: defined_def example_tensor_def)
    have a: "arguments_of ?m (example_tensor [9, 5]) (example_tensor [3]) hxs =
        Packed_arguments (example_tensor [9, 5]) (example_tensor [3]) hxs
          [] True 2 (Finite 0) True True" for hxs
      by (simp add: arguments_of_def d) (simp add: ex_defs)
    have r: "torch_rnn example_torch f args = (example_tensor [4], example_tensor [5])" for f args
      by (simp add: example_torch_def)
    show ?thesis
      using example_zeros [of kGRU "[9, 5]"] example_checks(2) [of kGRU]
      by (simp add: GRUImpl_forward_helper_eq [OF refl] d a r)
  qed
  moreover have "item_int64 example_torch (example_tensor [3]) 0 = 2"
    by (simp add: ex_defs)
  moreover have "permute_hidden example_torch (example_tensor [5]) (example_tensor [2]) =
      index_select example_torch (example_tensor [5]) 1 (example_tensor [2])"
    by (simp add: permute_hidden_def apply_permutation_def defined_def example_tensor_def)
  ultimately show ?thesis
    unfolding GRUImpl_forward_packed_def Let_def example_packed_def
    by (simp add: bind_io_Inr ret_def)
qed


section \<open>Parameter names: what is proved\<close>

text \<open>No occurrence of the pattern starts in a text that lacks its first character.\<close>

lemma regex_replace_Nil: "regex_replace [] pat fmt = []"
  by (subst regex_replace.simps) simp

lemma regex_replace_skip:
  "c \<notin> set xs \<Longrightarrow> regex_replace (xs @ ys) (c # pat) fmt = xs @ regex_replace ys (c # pat) fmt"
proof (induction xs)
  case Nil
  show ?case by simp
next
  case (Cons x xs)
  then have "regex_replace ((x # xs) @ ys) (c # pat) fmt = x # regex_replace (xs @ ys) (c # pat) fmt"
    by (subst regex_replace.simps) auto
  with Cons show ?case by simp
qed

lemma regex_replace_match:
  "pat \<noteq> [] \<Longrightarrow> regex_replace (pat @ ys) pat fmt = fmt @ regex_replace ys pat fmt"
  by (subst regex_replace.simps) simp

lemma regex_replace_no_match:
  "c \<notin> set xs \<Longrightarrow> take (length pat) xs \<noteq> pat \<Longrightarrow>
   regex_replace (c # xs) (c # pat) fmt = c # xs"
proof -
  assume c: "c \<notin> set xs" and t: "take (length pat) xs \<noteq> pat"
  have "regex_replace (c # xs) (c # pat) fmt = c # regex_replace xs (c # pat) fmt"
    using t by (subst regex_replace.simps) simp
  also have "regex_replace xs (c # pat) fmt = xs"
    using regex_replace_skip [OF c, of "[]" pat fmt] by (simp add: regex_replace_Nil)
  finally show ?thesis .
qed

lemma template_subst:
  assumes "CHR ''{'' \<notin> set pre" and "CHR ''{'' \<notin> set L"
  shows "regex_replace (regex_replace (pre @ ''{layer}{suffix}'') ''{layer}'' L) ''{suffix}'' S =
         pre @ L @ S"
proof -
  have "regex_replace (pre @ ''{layer}{suffix}'') ''{layer}'' L =
        pre @ regex_replace (''{layer}'' @ ''{suffix}'') ''{layer}'' L"
    using regex_replace_skip [OF assms(1), of "''{layer}{suffix}''" "''layer}''" L] by simp
  also have "regex_replace (''{layer}'' @ ''{suffix}'') ''{layer}'' L =
        L @ regex_replace ''{suffix}'' ''{layer}'' L"
    by (rule regex_replace_match) simp
  also have "regex_replace ''{suffix}'' ''{layer}'' L = ''{suffix}''"
    by (rule regex_replace_no_match) simp_all
  finally have 1: "regex_replace (pre @ ''{layer}{suffix}'') ''{layer}'' L = (pre @ L) @ ''{suffix}''"
    by simp
  have "regex_replace ((pre @ L) @ ''{suffix}'') ''{suffix}'' S =
        (pre @ L) @ regex_replace (''{suffix}'' @ []) ''{suffix}'' S"
    using regex_replace_skip [of "CHR ''{''" "pre @ L" "''{suffix}''" "''suffix}''" S] assms
    by simp
  also have "regex_replace (''{suffix}'' @ []) ''{suffix}'' S = S @ regex_replace [] ''{suffix}'' S"
    by (rule regex_replace_match) simp
  finally show ?thesis by (simp add: 1 regex_replace_Nil)
qed

lemma param_names_eq:
  assumes "CHR ''{'' \<notin> set (layer_text api l)"
  shows "param_names api b l d = layer_names (layer_text api l) b d"
proof -
  let ?L = "layer_text api l"
  have t: "regex_replace (regex_replace (pre @ ''{layer}{suffix}'') ''{layer}'' ?L)
             ''{suffix}'' S = pre @ ?L @ S" if "CHR ''{'' \<notin> set pre" for pre S
    using that assms by (rule template_subst)
  have "regex_replace (regex_replace ''weight_ih_l{layer}{suffix}'' ''{layer}'' ?L)
             ''{suffix}'' S = ''weight_ih_l'' @ ?L @ S" for S
    using t [of "''weight_ih_l''" S] by simp
  moreover have "regex_replace (regex_replace ''weight_hh_l{layer}{suffix}'' ''{layer}'' ?L)
             ''{suffix}'' S = ''weight_hh_l'' @ ?L @ S" for S
    using t [of "''weight_hh_l''" S] by simp
  moreover have "regex_replace (regex_replace ''bias_ih_l{layer}{suffix}'' ''{layer}'' ?L)
             ''{suffix}'' S = ''bias_ih_l'' @ ?L @ S" for S
    using t [of "''bias_ih_l''" S] by simp
  moreover have "regex_replace (regex_replace ''bias_hh_l{layer}{suffix}'' ''{layer}'' ?L)
             ''{suffix}'' S = ''bias_hh_l'' @ ?L @ S" for S
    using t [of "''bias_hh_l''" S] by simp
  ultimately show ?thesis
    by (simp add: param_names_def layer_names_def direction_suffix_def Let_def)
qed

lemma param_names_length: "length (param_names api b l d) = (if b then 4 else 2)"
  by (simp add: param_names_def Let_def)

text \<open>The decimal numerals of the example framework.\<close>

lemma string_of_nat_small: "n < 10 \<Longrightarrow> string_of_nat n = [digit_char n]"
  by (subst string_of_nat.simps) simp

lemma string_of_nat_large:
  "\<not> n < 10 \<Longrightarrow> string_of_nat n = string_of_nat (n div 10) @ [digit_char (n mod 10)]"
  by (subst string_of_nat.simps) simp

lemma digit_char_no_brace: "n < 10 \<Longrightarrow> digit_char n \<noteq> CHR ''{''"
proof -
  assume "n < 10"
  then have "digit_char n \<in> set ''0123456789''"
    unfolding digit_char_def by (intro nth_mem) simp
  then show ?thesis by auto
qed

lemma string_of_nat_no_brace: "CHR ''{'' \<notin> set (string_of_nat n)"
proof (induction n rule: string_of_nat.induct)
  case (1 n)
  show ?case
  proof (cases "n < 10")
    case True
    then show ?thesis using digit_char_no_brace [of n] by (auto simp: string_of_nat_small)
  next
    case False
    with 1 show ?thesis
      using digit_char_no_brace [of "n mod 10"] by (auto simp: string_of_nat_large)
  qed
qed

lemma to_string_no_brace: "CHR ''{'' \<notin> set (to_string i)"
  by (simp add: to_string_def string_of_nat_no_brace)

lemma example_layer_text: "layer_text example_torch = to_string"
  by (simp add: example_torch_def)

lemma example_param_names:
  "param_names example_torch b l d = layer_names (to_string l) b d"
  using param_names_eq [of example_torch l b d]
  by (simp add: example_layer_text to_string_no_brace)

lemmas name_eval = layer_names_def to_string_def string_of_nat_small digit_char_def
  direction_suffix_def


section \<open>reset: what is proved\<close>

lemma upto_dirs:
  "[0..(1::int) - 1] = [0]" "[0..(2::int) - 1] = [0, 1]" "[0..(0::int)] = [0]" "[0..(1::int)] = [0, 1]"
  by (simp_all add: upto_rec1)

lemma register_parameter_Inr:
  "register_parameter m n p = Inr m' \<longleftrightarrow>
     n \<notin> set (map fst (parameters m)) \<and> m' = m\<lparr>parameters := parameters m @ [(n, p)]\<rparr>"
  by (auto simp: register_parameter_def)

lemma register_parameters_Inr:
  "register_parameters m ns ps = Inr m' \<Longrightarrow> m' = m\<lparr>parameters := parameters m @ zip ns ps\<rparr>"
proof (induction m ns ps arbitrary: m' rule: register_parameters.induct)
  case (1 m ps)
  then show ?case by simp
next
  case (2 m n ns)
  then show ?case by simp
next
  case (3 m n ns p ps)
  from 3(2) obtain m1 where r: "register_parameter m n p = Inr m1"
    and rest: "register_parameters m1 ns ps = Inr m'"
    by (cases "register_parameter m n p") auto
  from r have m1: "m1 = m\<lparr>parameters := parameters m @ [(n, p)]\<rparr>"
    by (simp add: register_parameter_Inr)
  from 3(1) [OF r rest] show ?case by (simp add: m1)
qed

lemma register_parameters_ok:
  "distinct ns \<Longrightarrow> set ns \<inter> set (map fst (parameters m)) = {} \<Longrightarrow> length ns \<le> length ps \<Longrightarrow>
   register_parameters m ns ps = Inr (m\<lparr>parameters := parameters m @ zip ns ps\<rparr>)"
proof (induction m ns ps rule: register_parameters.induct)
  case (1 m ps)
  then show ?case by simp
next
  case (2 m n ns)
  then show ?case by simp
next
  case (3 m n ns p ps)
  let ?m1 = "m\<lparr>parameters := parameters m @ [(n, p)]\<rparr>"
  have r: "register_parameter m n p = Inr ?m1"
    using 3(3) by (simp add: register_parameter_Inr)
  have "register_parameters ?m1 ns ps = Inr (?m1\<lparr>parameters := parameters ?m1 @ zip ns ps\<rparr>)"
    using 3(2,3,4) by (intro 3(1) [OF r]) auto
  with r show ?case by simp
qed

text \<open>One pass of the loop body.\<close>

lemma torch_empty_tensor: "\<not> isl (torch_empty api shape) \<Longrightarrow> torch_empty api shape = Inr (empty_tensor api shape)"
  by (cases "torch_empty api shape") (simp_all add: empty_tensor_def)

lemma zip_param_names:
  "zip (param_names api (bias opts) l d) (map (empty_tensor api) (layer_shapes opts g l)) =
   layer_parameters api opts g l d"
  by (cases "bias opts") (simp_all add: param_names_def layer_parameters_def layer_shapes_def Let_def)

lemma keys_layer_parameters:
  "map fst (layer_parameters api opts g l d) = param_names api (bias opts) l d"
  by (cases "bias opts") (simp_all add: param_names_def layer_parameters_def Let_def)

lemma reset_layer_direction_alt:
  assumes "lis = layer_input_size_of opts l" and "ns = param_names api (bias opts) l d"
  shows "reset_layer_direction api opts g (if bidirectional opts then 2 else 1) l d m =
     (case torch_empty api [g, lis] of
        Inl e \<Rightarrow> Inl e
      | Inr w_ih \<Rightarrow>
     (case torch_empty api [g, hidden_size opts] of
        Inl e \<Rightarrow> Inl e
      | Inr w_hh \<Rightarrow>
     (case torch_empty api [g] of
        Inl e \<Rightarrow> Inl e
      | Inr b_ih \<Rightarrow>
     (case torch_empty api [g] of
        Inl e \<Rightarrow> Inl e
      | Inr b_hh \<Rightarrow>
          (case register_parameters m ns [w_ih, w_hh, b_ih, b_hh] of
             Inl e \<Rightarrow> Inl e
           | Inr m' \<Rightarrow>
               Inr (m'\<lparr>flat_weights_names := flat_weights_names m' @ ns,
                        all_weights := all_weights m' @ [ns]\<rparr>))))))"
  unfolding reset_layer_direction_def Let_def assms layer_input_size_of_def ..

lemma reset_layer_direction_Inr:
  assumes "reset_layer_direction api opts g (if bidirectional opts then 2 else 1) l d m = Inr m'"
  shows "list_all (\<lambda>shape. \<not> isl (torch_empty api shape)) (layer_shapes opts g l) \<and>
         m' = add_layer_direction api opts g l d m"
proof -
  define lis where "lis = layer_input_size_of opts l"
  define ns where "ns = param_names api (bias opts) l d"
  note alt = reset_layer_direction_alt [OF lis_def ns_def, of g m]
  from assms obtain w_ih where a: "torch_empty api [g, lis] = Inr w_ih"
    unfolding alt by (cases "torch_empty api [g, lis]") auto
  from assms a obtain w_hh where b: "torch_empty api [g, hidden_size opts] = Inr w_hh"
    unfolding alt by (cases "torch_empty api [g, hidden_size opts]") auto
  from assms a b obtain b_ih where c: "torch_empty api [g] = Inr b_ih"
    unfolding alt by (cases "torch_empty api [g]") auto
  from assms a b c obtain m1 where r: "register_parameters m ns [w_ih, w_hh, b_ih, b_ih] = Inr m1"
    and m': "m' = m1\<lparr>flat_weights_names := flat_weights_names m1 @ ns,
                      all_weights := all_weights m1 @ [ns]\<rparr>"
    unfolding alt by (cases "register_parameters m ns [w_ih, w_hh, b_ih, b_ih]") auto
  have ok: "list_all (\<lambda>shape. \<not> isl (torch_empty api shape)) (layer_shapes opts g l)"
    using a b c by (simp add: layer_shapes_def lis_def)
  have ts: "map (empty_tensor api) (layer_shapes opts g l) = [w_ih, w_hh, b_ih, b_ih]"
    using a b c by (simp add: layer_shapes_def lis_def empty_tensor_def)
  from register_parameters_Inr [OF r]
  have "m1 = m\<lparr>parameters := parameters m @ layer_parameters api opts g l d\<rparr>"
    using zip_param_names [of api opts l d g] by (simp add: ts ns_def)
  with m' ok show ?thesis
    by (simp add: add_layer_direction_def ns_def)
qed

lemma reset_layer_direction_ok:
  assumes ok: "list_all (\<lambda>shape. \<not> isl (torch_empty api shape)) (layer_shapes opts g l)"
    and dn: "distinct (param_names api (bias opts) l d)"
    and fresh: "set (param_names api (bias opts) l d) \<inter> set (map fst (parameters m)) = {}"
  shows "reset_layer_direction api opts g (if bidirectional opts then 2 else 1) l d m =
           Inr (add_layer_direction api opts g l d m)"
proof -
  define lis where "lis = layer_input_size_of opts l"
  define ns where "ns = param_names api (bias opts) l d"
  note alt = reset_layer_direction_alt [OF lis_def ns_def, of g m]
  have a: "torch_empty api [g, lis] = Inr (empty_tensor api [g, lis])"
    and b: "torch_empty api [g, hidden_size opts] = Inr (empty_tensor api [g, hidden_size opts])"
    and c: "torch_empty api [g] = Inr (empty_tensor api [g])"
    using ok by (simp_all add: layer_shapes_def lis_def torch_empty_tensor)
  let ?ps = "[empty_tensor api [g, lis], empty_tensor api [g, hidden_size opts],
              empty_tensor api [g], empty_tensor api [g]]"
  have ts: "map (empty_tensor api) (layer_shapes opts g l) = ?ps"
    by (simp add: layer_shapes_def lis_def)
  have "length ns \<le> length ?ps"
    by (simp add: ns_def param_names_length)
  with dn fresh have "register_parameters m ns ?ps =
          Inr (m\<lparr>parameters := parameters m @ zip ns ?ps\<rparr>)"
    unfolding ns_def [symmetric] by (intro register_parameters_ok)
  moreover have "zip ns ?ps = layer_parameters api opts g l d"
    using zip_param_names [of api opts l d g] by (simp add: ts ns_def)
  ultimately show ?thesis
    unfolding alt by (simp add: a b c add_layer_direction_def ns_def)
qed

lemma reset_layer_direction_negative:
  assumes "g < 0 \<or> input_size opts < 0"
  shows "reset_layer_direction api opts g (if bidirectional opts then 2 else 1) 0 d m =
           Inl (Negative_dimension [g, input_size opts])"
proof -
  have "torch_empty api [g, input_size opts] = Inl (Negative_dimension [g, input_size opts])"
    using assms by (auto simp: torch_empty_def)
  then show ?thesis
    unfolding reset_layer_direction_alt [OF refl refl]
    by (simp add: layer_input_size_of_def)
qed

text \<open>The loop over the directions of a layer.\<close>

lemma reset_directions_done:
  "\<not> d < nd \<Longrightarrow> reset_directions api opts g nd l d m = Inr m"
  by (subst reset_directions.simps) simp

lemma reset_directions_step:
  "d < nd \<Longrightarrow> reset_layer_direction api opts g nd l d m = Inr m1 \<Longrightarrow>
   reset_directions api opts g nd l d m = reset_directions api opts g nd l (d + 1) m1"
  by (subst reset_directions.simps) simp

lemma reset_directions_fail:
  "d < nd \<Longrightarrow> reset_layer_direction api opts g nd l d m = Inl e \<Longrightarrow>
   reset_directions api opts g nd l d m = Inl e"
  by (subst reset_directions.simps) simp

lemma reset_directions_Inr:
  assumes "reset_directions api opts g (if bidirectional opts then 2 else 1) l 0 m = Inr m'"
  shows "list_all (\<lambda>shape. \<not> isl (torch_empty api shape)) (layer_shapes opts g l) \<and>
         m' = add_layer api opts g l m"
proof -
  let ?nd = "if bidirectional opts then 2 else 1"
  have pos: "(0::int) < ?nd" by simp
  show ?thesis
  proof (cases "reset_layer_direction api opts g ?nd l 0 m")
    case (Inl e)
    with assms reset_directions_fail [OF pos Inl] show ?thesis by simp
  next
    case r0: (Inr m1)
    from reset_layer_direction_Inr [OF r0]
    have ok: "list_all (\<lambda>shape. \<not> isl (torch_empty api shape)) (layer_shapes opts g l)"
      and m1: "m1 = add_layer_direction api opts g l 0 m" by simp_all
    have s0: "reset_directions api opts g ?nd l 0 m = reset_directions api opts g ?nd l 1 m1"
      using reset_directions_step [OF pos r0] by simp
    show ?thesis
    proof (cases "bidirectional opts")
      case False
      with s0 assms m1 ok show ?thesis
        by (simp add: reset_directions_done add_layer_def upto_dirs)
    next
      case True
      show ?thesis
      proof (cases "reset_layer_direction api opts g ?nd l 1 m1")
        case (Inl e)
        have "reset_directions api opts g ?nd l 1 m1 = Inl e"
          using True by (intro reset_directions_fail [OF _ Inl]) simp
        with s0 assms show ?thesis by simp
      next
        case r1: (Inr m2)
        from reset_layer_direction_Inr [OF r1]
        have m2: "m2 = add_layer_direction api opts g l 1 m1" by simp
        have "reset_directions api opts g ?nd l 1 m1 = reset_directions api opts g ?nd l (1 + 1) m2"
          using True by (intro reset_directions_step [OF _ r1]) simp
        with s0 assms True m1 m2 ok show ?thesis
          by (simp add: reset_directions_done add_layer_def upto_dirs)
      qed
    qed
  qed
qed

lemma keys_add_layer_direction:
  "map fst (parameters (add_layer_direction api opts g l d m)) =
     map fst (parameters m) @ param_names api (bias opts) l d"
  by (simp add: add_layer_direction_def keys_layer_parameters)

lemma reset_directions_ok:
  assumes ok: "list_all (\<lambda>shape. \<not> isl (torch_empty api shape)) (layer_shapes opts g l)"
    and dn: "distinct (map fst (parameters m) @
                       concat (map (param_names api (bias opts) l)
                                 [0..(if bidirectional opts then 2 else 1) - 1]))"
  shows "reset_directions api opts g (if bidirectional opts then 2 else 1) l 0 m =
           Inr (add_layer api opts g l m)"
proof -
  let ?nd = "if bidirectional opts then 2 else 1"
  let ?m1 = "add_layer_direction api opts g l 0 m"
  have pos: "(0::int) < ?nd" by simp
  have d0: "distinct (param_names api (bias opts) l 0)"
    and f0: "set (param_names api (bias opts) l 0) \<inter> set (map fst (parameters m)) = {}"
    using dn by (cases "bidirectional opts"; auto simp: upto_dirs)+
  have r0: "reset_layer_direction api opts g ?nd l 0 m = Inr ?m1"
    using ok d0 f0 by (rule reset_layer_direction_ok)
  have s0: "reset_directions api opts g ?nd l 0 m = reset_directions api opts g ?nd l 1 ?m1"
    using reset_directions_step [OF pos r0] by simp
  show ?thesis
  proof (cases "bidirectional opts")
    case False
    with s0 show ?thesis
      by (simp add: reset_directions_done add_layer_def upto_dirs)
  next
    case True
    let ?m2 = "add_layer_direction api opts g l 1 ?m1"
    have d1: "distinct (param_names api (bias opts) l 1)"
      and f1: "set (param_names api (bias opts) l 1) \<inter> set (map fst (parameters ?m1)) = {}"
      using dn True by (auto simp: upto_dirs keys_add_layer_direction)
    have r1: "reset_layer_direction api opts g ?nd l 1 ?m1 = Inr ?m2"
      using ok d1 f1 by (rule reset_layer_direction_ok)
    have "reset_directions api opts g ?nd l 1 ?m1 = reset_directions api opts g ?nd l (1 + 1) ?m2"
      using True by (intro reset_directions_step [OF _ r1]) simp
    with s0 True show ?thesis
      by (simp add: reset_directions_done add_layer_def upto_dirs)
  qed
qed

lemma reset_directions_negative:
  assumes "g < 0 \<or> input_size opts < 0"
  shows "reset_directions api opts g (if bidirectional opts then 2 else 1) 0 0 m =
           Inl (Negative_dimension [g, input_size opts])"
  using reset_layer_direction_negative [OF assms, of api 0 m]
  by (intro reset_directions_fail) simp_all

lemma parameters_add_layer:
  "parameters (add_layer api opts g l m) =
     parameters m @ concat (map (layer_parameters api opts g l)
                              [0..(if bidirectional opts then 2 else 1) - 1])"
  by (simp add: add_layer_def add_layer_direction_def upto_dirs)

lemma names_add_layer:
  "flat_weights_names (add_layer api opts g l m) =
     flat_weights_names m @ concat (map (param_names api (bias opts) l)
                                     [0..(if bidirectional opts then 2 else 1) - 1])"
  by (simp add: add_layer_def add_layer_direction_def upto_dirs)

lemma frame_add_layer:
  "options (add_layer api opts g l m) = options m"
  "flat_weights (add_layer api opts g l m) = flat_weights m"
  "is_training (add_layer api opts g l m) = is_training m"
  by (simp_all add: add_layer_def add_layer_direction_def upto_dirs)

lemma keys_add_layer:
  "map fst (parameters (add_layer api opts g l m)) =
     map fst (parameters m) @ concat (map (param_names api (bias opts) l)
                                        [0..(if bidirectional opts then 2 else 1) - 1])"
  by (simp add: add_layer_def keys_add_layer_direction upto_dirs)

text \<open>The loop over the layers.\<close>

lemma distinct_append3: "distinct (xs @ ys @ zs) \<Longrightarrow> distinct (xs @ ys)"
  by auto

lemma reset_layers_done:
  "\<not> l < num_layers opts \<Longrightarrow> reset_layers api opts g nd l m = Inr m"
  by (subst reset_layers.simps) simp

lemma reset_layers_step:
  "l < num_layers opts \<Longrightarrow> reset_directions api opts g nd l 0 m = Inr m1 \<Longrightarrow>
   reset_layers api opts g nd l m = reset_layers api opts g nd (l + 1) m1"
  by (subst reset_layers.simps) simp

lemma reset_layers_fail:
  "l < num_layers opts \<Longrightarrow> reset_directions api opts g nd l 0 m = Inl e \<Longrightarrow>
   reset_layers api opts g nd l m = Inl e"
  by (subst reset_layers.simps) simp

lemma reset_layers_Inr:
  "nd = (if bidirectional opts then 2 else 1) \<Longrightarrow> reset_layers api opts g nd l m = Inr m' \<Longrightarrow>
   list_all (\<lambda>shape. \<not> isl (torch_empty api shape))
     (concat (map (layer_shapes opts g) [l..num_layers opts - 1])) \<and>
   m' = fold (add_layer api opts g) [l..num_layers opts - 1] m"
proof (induction api opts g nd l m rule: reset_layers.induct)
  case (1 api opts g nd l m)
  show ?case
  proof (cases "l < num_layers opts")
    case False
    with 1(3) show ?thesis by (simp add: reset_layers_done)
  next
    case True
    show ?thesis
    proof (cases "reset_directions api opts g nd l 0 m")
      case (Inl e)
      with True 1(3) show ?thesis by (simp add: reset_layers_fail)
    next
      case (Inr m1)
      then have "reset_directions api opts g (if bidirectional opts then 2 else 1) l 0 m = Inr m1"
        using 1(2) by simp
      from reset_directions_Inr [OF this]
      have ok: "list_all (\<lambda>shape. \<not> isl (torch_empty api shape)) (layer_shapes opts g l)"
        and m1: "m1 = add_layer api opts g l m" by simp_all
      from 1(3) have "reset_layers api opts g nd (l + 1) m1 = Inr m'"
        by (simp add: reset_layers_step [OF True Inr])
      from 1(1) [OF True Inr 1(2) this] m1 True ok show ?thesis
        by (simp add: upto_rec1 [of l])
    qed
  qed
qed

lemma reset_layers_ok:
  "nd = (if bidirectional opts then 2 else 1) \<Longrightarrow>
   list_all (\<lambda>shape. \<not> isl (torch_empty api shape))
     (concat (map (layer_shapes opts g) [l..num_layers opts - 1])) \<Longrightarrow>
   distinct (map fst (parameters m) @
             concat (map (\<lambda>l. concat (map (param_names api (bias opts) l)
                                         [0..(if bidirectional opts then 2 else 1) - 1]))
                       [l..num_layers opts - 1])) \<Longrightarrow>
   reset_layers api opts g nd l m = Inr (fold (add_layer api opts g) [l..num_layers opts - 1] m)"
proof (induction api opts g nd l m rule: reset_layers.induct)
  case (1 api opts g nd l m)
  show ?case
  proof (cases "l < num_layers opts")
    case False
    then show ?thesis by (simp add: reset_layers_done)
  next
    case True
    then have u: "[l..num_layers opts - 1] = l # [l + 1..num_layers opts - 1]"
      by (simp add: upto_rec1)
    have ok: "list_all (\<lambda>shape. \<not> isl (torch_empty api shape)) (layer_shapes opts g l)"
      and ok': "list_all (\<lambda>shape. \<not> isl (torch_empty api shape))
                  (concat (map (layer_shapes opts g) [l + 1..num_layers opts - 1]))"
      using 1(3) by (simp_all add: u)
    from 1(4) have e: "distinct (map fst (parameters m) @
                        concat (map (param_names api (bias opts) l)
                                  [0..(if bidirectional opts then 2 else 1) - 1]) @
             concat (map (\<lambda>l. concat (map (param_names api (bias opts) l)
                                         [0..(if bidirectional opts then 2 else 1) - 1]))
                       [l + 1..num_layers opts - 1]))"
      unfolding u by (simp only: list.map concat.simps)
    have dl: "distinct (map fst (parameters m) @
                        concat (map (param_names api (bias opts) l)
                                  [0..(if bidirectional opts then 2 else 1) - 1]))"
      using e by (rule distinct_append3)
    have r: "reset_directions api opts g nd l 0 m = Inr (add_layer api opts g l m)"
      using reset_directions_ok [OF ok dl] 1(2) by simp
    have dr: "distinct (map fst (parameters (add_layer api opts g l m)) @
             concat (map (\<lambda>l. concat (map (param_names api (bias opts) l)
                                         [0..(if bidirectional opts then 2 else 1) - 1]))
                       [l + 1..num_layers opts - 1]))"
      using e by (simp only: keys_add_layer append_assoc)
    have "reset_layers api opts g nd (l + 1) (add_layer api opts g l m) =
            Inr (fold (add_layer api opts g) [l + 1..num_layers opts - 1] (add_layer api opts g l m))"
      using ok' dr by (intro 1(1) [OF True r 1(2)])
    then show ?thesis
      by (simp add: reset_layers_step [OF True r] u)
  qed
qed

lemma reset_layers_negative:
  assumes "g < 0 \<or> input_size opts < 0" and "1 \<le> num_layers opts"
  shows "reset_layers api opts g (if bidirectional opts then 2 else 1) 0 m =
           Inl (Negative_dimension [g, input_size opts])"
  using reset_directions_negative [OF assms(1), of api m] assms(2)
  by (intro reset_layers_fail) simp_all

lemma parameters_fold_add_layer:
  "parameters (fold (add_layer api opts g) ls m) =
     parameters m @ concat (map (\<lambda>l. concat (map (\<lambda>d. layer_parameters api opts g l d)
                                 [0..(if bidirectional opts then 2 else 1) - 1])) ls)"
  by (induction ls arbitrary: m) (simp_all add: parameters_add_layer)

lemma names_fold_add_layer:
  "flat_weights_names (fold (add_layer api opts g) ls m) =
     flat_weights_names m @ concat (map (\<lambda>l. concat (map (\<lambda>d. param_names api (bias opts) l d)
                                 [0..(if bidirectional opts then 2 else 1) - 1])) ls)"
  by (induction ls arbitrary: m) (simp_all add: names_add_layer)

lemma frame_fold_add_layer:
  "options (fold (add_layer api opts g) ls m) = options m"
  "flat_weights (fold (add_layer api opts g) ls m) = flat_weights m"
  "is_training (fold (add_layer api opts g) ls m) = is_training m"
  by (induction ls arbitrary: m) (simp_all add: frame_add_layer)

text \<open>What follows the loops: the flat weights, flatten_parameters and reset_parameters.\<close>

lemma dropout_check:
  "(double_le (Finite 0) d \<and> double_le d (Finite 1)) = in_unit_interval d"
  by (cases d) auto

lemma flatten_parameters_same: "flatten_parameters api m = (tr, Inr m') \<Longrightarrow> m' = m"
  unfolding flatten_parameters_def
  by (auto simp: io_defs split: if_splits list.splits sum.splits)

lemma flatten_parameters_returns:
  assumes "length (flat_weights m) = length (flat_weights_names m)" and "flat_weights m \<noteq> []"
    and "mode (options m) \<noteq> kUnrecognized"
  shows "snd (flatten_parameters api m) = Inr m"
proof -
  obtain cm where "get_cudnn_mode_for_rnn (mode (options m)) = Inr cm"
    using assms(3) by (cases "mode (options m)") auto
  with assms(1,2) show ?thesis
    unfolding flatten_parameters_def
    by (auto simp: io_defs split: list.splits)
qed

lemma flatten_parameters_empty:
  "flat_weights m = [] \<Longrightarrow> flat_weights_names m = [] \<Longrightarrow>
   flatten_parameters api m = ([], Inl Vector_index_out_of_range)"
  by (simp add: flatten_parameters_def raise_def)

lemma uniform_each_ok:
  "list_all (\<lambda>w. \<not> isl (init_uniform api w hs)) ws \<Longrightarrow>
   uniform_each api hs ws = (map (\<lambda>w. Uniform_init w hs) ws, Inr ())"
proof (induction ws)
  case Nil
  show ?case by (simp add: ret_def)
next
  case (Cons w ws)
  then obtain u where "init_uniform api w hs = Inr u"
    by (cases "init_uniform api w hs") auto
  with Cons show ?case
    by (simp add: emit_def bind_io_Inr)
qed

lemma reset_parameters_same: "reset_parameters api m = (tr, Inr m') \<Longrightarrow> m' = m"
proof -
  assume a: "reset_parameters api m = (tr, Inr m')"
  obtain t r where u: "uniform_each api (hidden_size (options m)) (map snd (named_parameters m)) = (t, r)"
    by (cases "uniform_each api (hidden_size (options m)) (map snd (named_parameters m))") auto
  show ?thesis
    using a u by (cases r) (simp_all add: reset_parameters_def bind_io_Inl bind_io_Inr ret_def)
qed

lemma reset_parameters_ok:
  "list_all (\<lambda>w. \<not> isl (init_uniform api w (hidden_size (options m))))
     (map snd (named_parameters m)) \<Longrightarrow>
   snd (reset_parameters api m) = Inr m"
  by (simp add: reset_parameters_def uniform_each_ok bind_io_Inr ret_def)

lemma gate_size_of_Inr:
  "gate_size_of opts = Inr g \<longleftrightarrow>
     (mode opts = kLSTM \<and> g = int64_t (4 * hidden_size opts) \<or>
      mode opts = kGRU \<and> g = int64_t (3 * hidden_size opts) \<or>
      (mode opts = kRNN_TANH \<or> mode opts = kRNN_RELU) \<and> g = hidden_size opts)"
  by (cases "mode opts") (auto simp: gate_size_of_def)

lemma gate_size_of_unrecognized:
  "mode opts = kUnrecognized \<Longrightarrow> gate_size_of opts = Inl (Unrecognized_RNN_mode kUnrecognized)"
  by (simp add: gate_size_of_def)

lemma gate_size_of_recognized:
  "mode opts \<noteq> kUnrecognized \<Longrightarrow> \<exists>g. gate_size_of opts = Inr g"
  by (cases "mode opts") (auto simp: gate_size_of_def)

lemma reset_bad_dropout:
  "\<not> in_unit_interval (dropout (options m)) \<Longrightarrow> reset api m = ([], Inl Dropout_out_of_range)"
  by (simp add: reset_def Let_def dropout_check raise_def)

lemma warning_io:
  "(if double_less (Finite 0) (dropout opts) \<and> num_layers opts = 1
    then emit (Warn_dropout (dropout opts) (num_layers opts)) else ret ()) =
   (dropout_warning opts, Inr ())"
  by (simp add: dropout_warning_def emit_def ret_def)

lemma reset_bad_mode:
  "in_unit_interval (dropout (options m)) \<Longrightarrow> gate_size_of (options m) = Inl e \<Longrightarrow>
   reset api m = (dropout_warning (options m), Inl e)"
  by (simp add: reset_def Let_def dropout_check warning_io bind_io_Inr raise_def)

lemma reset_layers_failed:
  "in_unit_interval (dropout (options m)) \<Longrightarrow> gate_size_of (options m) = Inr g \<Longrightarrow>
   reset_layers api (options m) g (if bidirectional (options m) then 2 else 1) 0
     (m\<lparr>flat_weights_names := [], all_weights := []\<rparr>) = Inl e \<Longrightarrow>
   reset api m = (dropout_warning (options m), Inl e)"
  by (simp add: reset_def Let_def dropout_check warning_io bind_io_Inr raise_def)

lemma reset_layers_passed:
  "in_unit_interval (dropout (options m)) \<Longrightarrow> gate_size_of (options m) = Inr g \<Longrightarrow>
   reset_layers api (options m) g (if bidirectional (options m) then 2 else 1) 0
     (m\<lparr>flat_weights_names := [], all_weights := []\<rparr>) = Inr m1 \<Longrightarrow>
   reset api m =
     (dropout_warning (options m) @
        fst (bind_io (flatten_parameters api (reset_flat_weights m1)) (reset_parameters api)),
      snd (bind_io (flatten_parameters api (reset_flat_weights m1)) (reset_parameters api)))"
  by (simp add: reset_def Let_def dropout_check warning_io bind_io_Inr)

lemma reset_Inr:
  assumes "reset api m = (tr, Inr m')"
  shows "in_unit_interval (dropout (options m)) \<and>
         (\<exists>g. gate_size_of (options m) = Inr g \<and> m' = reset_result api m g \<and>
              list_all (\<lambda>shape. \<not> isl (torch_empty api shape)) (weight_shapes (options m) g))"
proof -
  have d: "in_unit_interval (dropout (options m))"
    using assms reset_bad_dropout [of m api] by auto
  obtain g where g: "gate_size_of (options m) = Inr g"
    using assms reset_bad_mode [OF d, of _ api] by (cases "gate_size_of (options m)") auto
  let ?nd = "if bidirectional (options m) then 2 else 1"
  let ?m0 = "m\<lparr>flat_weights_names := [], all_weights := []\<rparr>"
  obtain m1 where m1: "reset_layers api (options m) g ?nd 0 ?m0 = Inr m1"
    using assms reset_layers_failed [OF d g, of api]
    by (cases "reset_layers api (options m) g ?nd 0 ?m0") auto
  from reset_layers_Inr [OF refl m1]
  have ok: "list_all (\<lambda>shape. \<not> isl (torch_empty api shape)) (weight_shapes (options m) g)"
    and f: "m1 = fold (add_layer api (options m) g) [0..num_layers (options m) - 1] ?m0"
    by (simp_all add: weight_shapes_def)
  from assms reset_layers_passed [OF d g m1]
  have s: "snd (bind_io (flatten_parameters api (reset_flat_weights m1)) (reset_parameters api)) =
             Inr m'"
    by simp
  obtain t r where fl: "flatten_parameters api (reset_flat_weights m1) = (t, r)"
    by (cases "flatten_parameters api (reset_flat_weights m1)") auto
  have "m' = reset_flat_weights m1"
  proof (cases r)
    case (Inl e)
    with s fl show ?thesis by (simp add: bind_io_Inl)
  next
    case (Inr m2)
    with fl have m2: "m2 = reset_flat_weights m1" by (simp add: flatten_parameters_same)
    from s fl Inr have "snd (reset_parameters api m2) = Inr m'"
      by (simp add: bind_io_Inr)
    then have "reset_parameters api m2 = (fst (reset_parameters api m2), Inr m')"
      by (simp add: prod_eq_iff)
    from reset_parameters_same [OF this] m2 show ?thesis by simp
  qed
  with d g f ok show ?thesis by (auto simp: reset_result_def)
qed

lemma frame_reset_flat_weights:
  "parameters (reset_flat_weights m) = parameters m"
  "flat_weights_names (reset_flat_weights m) = flat_weights_names m"
  "options (reset_flat_weights m) = options m"
  "length (flat_weights (reset_flat_weights m)) = length (flat_weights_names m)"
  by (simp_all add: reset_flat_weights_def)

lemma parameters_reset_result:
  "parameters (reset_result api m g) = parameters m @ registered_parameters api (options m) g"
  by (simp add: reset_result_def frame_reset_flat_weights parameters_fold_add_layer
      registered_parameters_def)

lemma names_reset_result:
  "flat_weights_names (reset_result api m g) = registered_names api (options m)"
  by (simp add: reset_result_def frame_reset_flat_weights names_fold_add_layer
      registered_names_def)

lemma options_reset_result: "options (reset_result api m g) = options m"
  by (simp add: reset_result_def frame_reset_flat_weights frame_fold_add_layer)

lemma keys_registered_parameters:
  "map fst (registered_parameters api opts g) = registered_names api opts"
  by (simp add: registered_parameters_def registered_names_def map_concat comp_def
      keys_layer_parameters)

lemma registered_names_empty: "registered_names api opts = [] \<longleftrightarrow> num_layers opts < 1"
proof (cases "num_layers opts < 1")
  case True
  then show ?thesis by (simp add: registered_names_def)
next
  case False
  then have "[0..num_layers opts - 1] = 0 # [0 + 1..num_layers opts - 1]"
    by (intro upto_rec1) simp
  moreover have "param_names api b l d \<noteq> []" for b l d
    using param_names_length [of api b l d] by (cases b) auto
  ultimately show ?thesis using False
    by (cases "bidirectional opts") (simp_all add: registered_names_def upto_dirs)
qed

lemma named_parameters_tensors:
  "map snd (named_parameters m) = filter defined (map snd (parameters m))"
  by (simp add: named_parameters_def filter_map comp_def)

text \<open>reset on a module that has no parameter yet, as the constructor calls it.\<close>

lemma reset_fresh:
  assumes p: "parameters m = []" and d: "in_unit_interval (dropout (options m))"
    and g: "gate_size_of (options m) = Inr g"
    and acc: "framework_accepts api (options m) g"
  shows "snd (reset api m) =
           (if 1 \<le> num_layers (options m) then Inr (reset_result api m g)
            else Inl Vector_index_out_of_range)"
    and "\<exists>tr. fst (reset api m) = dropout_warning (options m) @ tr"
proof -
  let ?nd = "if bidirectional (options m) then 2 else 1"
  let ?m0 = "m\<lparr>flat_weights_names := [], all_weights := []\<rparr>"
  let ?m1 = "fold (add_layer api (options m) g) [0..num_layers (options m) - 1] ?m0"
  let ?m2 = "reset_flat_weights ?m1"
  from acc have ok: "list_all (\<lambda>shape. \<not> isl (torch_empty api shape))
                       (concat (map (layer_shapes (options m) g) [0..num_layers (options m) - 1]))"
    and dn: "distinct (registered_names api (options m))"
    and un: "list_all (\<lambda>w. \<not> isl (init_uniform api w (hidden_size (options m))))
               (filter defined (map snd (registered_parameters api (options m) g)))"
    by (simp_all add: framework_accepts_def weight_shapes_def)
  have m1: "reset_layers api (options m) g ?nd 0 ?m0 = Inr ?m1"
    using ok dn p by (intro reset_layers_ok) (simp_all add: registered_names_def)
  note r = reset_layers_passed [OF d g m1]
  show "\<exists>tr. fst (reset api m) = dropout_warning (options m) @ tr"
    using r by simp
  have n: "flat_weights_names ?m2 = registered_names api (options m)"
    using names_reset_result [of api m g] by (simp add: reset_result_def)
  have len: "length (flat_weights ?m2) = length (flat_weights_names ?m2)"
    by (simp add: frame_reset_flat_weights)
  have md: "mode (options ?m2) \<noteq> kUnrecognized"
    using g by (auto simp: frame_reset_flat_weights frame_fold_add_layer gate_size_of_Inr)
  have ps: "parameters ?m2 = registered_parameters api (options m) g"
    using parameters_reset_result [of api m g] p by (simp add: reset_result_def)
  have hs: "hidden_size (options ?m2) = hidden_size (options m)"
    by (simp add: frame_reset_flat_weights frame_fold_add_layer)
  have rp: "snd (reset_parameters api ?m2) = Inr ?m2"
    using un by (intro reset_parameters_ok) (simp add: named_parameters_tensors ps hs)
  show "snd (reset api m) =
           (if 1 \<le> num_layers (options m) then Inr (reset_result api m g)
            else Inl Vector_index_out_of_range)"
  proof (cases "1 \<le> num_layers (options m)")
    case True
    then have "flat_weights_names ?m2 \<noteq> []"
      using n registered_names_empty [of api "options m"] by simp
    with len have "flat_weights ?m2 \<noteq> []" by auto
    from flatten_parameters_returns [OF len this md, of api]
    obtain t where "flatten_parameters api ?m2 = (t, Inr ?m2)"
      by (cases "flatten_parameters api ?m2") auto
    with r True rp show ?thesis
      by (simp add: bind_io_Inr reset_result_def)
  next
    case False
    then have "flat_weights_names ?m2 = []"
      using n registered_names_empty [of api "options m"] by simp
    moreover with len have "flat_weights ?m2 = []" by simp
    ultimately have "flatten_parameters api ?m2 = ([], Inl Vector_index_out_of_range)"
      by (intro flatten_parameters_empty)
    with r False show ?thesis by (simp add: bind_io_Inl)
  qed
qed

lemma reset_negative:
  assumes "in_unit_interval (dropout (options m))" and "gate_size_of (options m) = Inr g"
    and "1 \<le> num_layers (options m)" and "g < 0 \<or> input_size (options m) < 0"
  shows "reset api m =
           (dropout_warning (options m), Inl (Negative_dimension [g, input_size (options m)]))"
  using assms(1,2) reset_layers_negative [OF assms(4,3)]
  by (rule reset_layers_failed)

lemma RNNImplBase_new_eq: "RNNImplBase_new api opts = reset api (new_module opts)"
  by (simp add: RNNImplBase_new_def new_module_def)

lemma new_module_simps:
  "options (new_module opts) = opts" "parameters (new_module opts) = []"
  by (simp_all add: new_module_def)

lemma layer_in_registered:
  assumes "0 \<le> l" and "l < num_layers opts" and "0 \<le> d"
    and "d < (if bidirectional opts then 2 else 1)"
  shows "set (layer_parameters api opts g l d) \<subseteq> set (registered_parameters api opts g)"
proof
  fix x
  assume x: "x \<in> set (layer_parameters api opts g l d)"
  define ds where "ds = [0..(if bidirectional opts then 2 else 1) - 1]"
  have lm: "l \<in> set [0..num_layers opts - 1]" using assms(1,2) by simp
  have dm: "d \<in> set ds" using assms(3,4) by (simp add: ds_def)
  from x dm have "x \<in> set (concat (map (layer_parameters api opts g l) ds))" by auto
  with lm have "x \<in> set (concat (map (\<lambda>l. concat (map (layer_parameters api opts g l) ds))
                                 [0..num_layers opts - 1]))"
    unfolding set_concat set_map by (intro UN_I [of "concat (map (layer_parameters api opts g l) ds)"]) auto
  then show "x \<in> set (registered_parameters api opts g)"
    by (simp add: registered_parameters_def ds_def)
qed

text \<open>The example framework on the example options.\<close>

lemma example_torch_empty:
  "\<not> list_ex (\<lambda>d. d < 0) shape \<Longrightarrow>
   torch_empty example_torch shape =
     Inr (Some \<lparr>sizes = shape, dtype = kFloat, device = CPU, data_ptr = 1\<rparr>)"
  by (simp add: torch_empty_def example_torch_def)

lemma example_uniform: "list_all (\<lambda>w. \<not> isl (init_uniform example_torch w hs)) ws"
  by (simp add: example_torch_def list_all_iff)

lemma example_registered_names:
  "registered_names example_torch (example_options md) =
     [''weight_ih_l0'', ''weight_hh_l0'', ''bias_ih_l0'', ''bias_hh_l0'',
      ''weight_ih_l0_reverse'', ''weight_hh_l0_reverse'', ''bias_ih_l0_reverse'',
      ''bias_hh_l0_reverse'',
      ''weight_ih_l1'', ''weight_hh_l1'', ''bias_ih_l1'', ''bias_hh_l1'',
      ''weight_ih_l1_reverse'', ''weight_hh_l1_reverse'', ''bias_ih_l1_reverse'',
      ''bias_hh_l1_reverse'']"
  by (simp add: registered_names_def example_options_def example_param_names name_eval upto_dirs)

lemma warned_registered_names:
  "registered_names example_torch (warned_options\<lparr>input_size := i\<rparr>) =
     [''weight_ih_l0'', ''weight_hh_l0'', ''bias_ih_l0'', ''bias_hh_l0'']"
  by (simp add: registered_names_def warned_options_def example_param_names name_eval upto_dirs)

lemma example_weight_shapes:
  "weight_shapes (example_options md) g =
     [[g, 5], [g, 3], [g], [g], [g, 6], [g, 3], [g], [g]]"
  by (simp add: weight_shapes_def layer_shapes_def layer_input_size_of_def example_options_def
        int64_t_def upto_dirs)

lemma warned_weight_shapes:
  "weight_shapes (warned_options\<lparr>input_size := i\<rparr>) g = [[g, i], [g, 3], [g], [g]]"
  by (simp add: weight_shapes_def layer_shapes_def layer_input_size_of_def warned_options_def
        upto_dirs)

lemma example_accepts: "0 \<le> g \<Longrightarrow> framework_accepts example_torch (example_options md) g"
  unfolding framework_accepts_def
  by (simp add: example_weight_shapes example_torch_empty example_registered_names
        example_uniform)

lemma warned_accepts:
  "0 \<le> g \<Longrightarrow> 0 \<le> i \<Longrightarrow> framework_accepts example_torch (warned_options\<lparr>input_size := i\<rparr>) g"
  unfolding framework_accepts_def
  by (simp add: warned_weight_shapes example_torch_empty warned_registered_names
        example_uniform)

lemma example_gate_size:
  "gate_size_of (example_options kLSTM) = Inr 12" "gate_size_of (example_options kGRU) = Inr 9"
  "gate_size_of (warned_options\<lparr>input_size := i\<rparr>) = Inr 9"
  "gate_size_of negative_options = Inr (- 3)" "gate_size_of wide_options = Inr 0"
  "gate_size_of no_layer_options = Inr 12"
  by (simp_all add: gate_size_of_def example_options_def warned_options_def
        negative_options_def wide_options_def no_layer_options_def int64_t_def)

lemma example_new_returns:
  "snd (RNNImplBase_new example_torch (example_options kLSTM)) =
     Inr (reset_result example_torch (new_module (example_options kLSTM)) 12)"
  "snd (RNNImplBase_new example_torch (example_options kGRU)) =
     Inr (reset_result example_torch (new_module (example_options kGRU)) 9)"
proof -
  show "snd (RNNImplBase_new example_torch (example_options kLSTM)) =
     Inr (reset_result example_torch (new_module (example_options kLSTM)) 12)"
    using reset_fresh(1) [of "new_module (example_options kLSTM)" 12 example_torch]
      example_accepts [of 12 kLSTM] example_gate_size(1)
    by (simp add: RNNImplBase_new_eq new_module_simps) (simp add: example_options_def)
  show "snd (RNNImplBase_new example_torch (example_options kGRU)) =
     Inr (reset_result example_torch (new_module (example_options kGRU)) 9)"
    using reset_fresh(1) [of "new_module (example_options kGRU)" 9 example_torch]
      example_accepts [of 9 kGRU] example_gate_size(2)
    by (simp add: RNNImplBase_new_eq new_module_simps) (simp add: example_options_def)
qed

lemma example_lstm_parameters:
  "map (\<lambda>p. (fst p, map_option sizes (snd p)))
     (registered_parameters example_torch (example_options kLSTM) 12) =
   [(''weight_ih_l0'', Some [12, 5]), (''weight_hh_l0'', Some [12, 3]),
    (''bias_ih_l0'', Some [12]), (''bias_hh_l0'', Some [12]),
    (''weight_ih_l0_reverse'', Some [12, 5]), (''weight_hh_l0_reverse'', Some [12, 3]),
    (''bias_ih_l0_reverse'', Some [12]), (''bias_hh_l0_reverse'', Some [12]),
    (''weight_ih_l1'', Some [12, 6]), (''weight_hh_l1'', Some [12, 3]),
    (''bias_ih_l1'', Some [12]), (''bias_hh_l1'', Some [12]),
    (''weight_ih_l1_reverse'', Some [12, 6]), (''weight_hh_l1_reverse'', Some [12, 3]),
    (''bias_ih_l1_reverse'', Some [12]), (''bias_hh_l1_reverse'', Some [12])]"
  by (simp add: registered_parameters_def layer_parameters_def layer_input_size_of_def
      example_options_def example_param_names name_eval upto_dirs Let_def empty_tensor_def
      example_torch_empty int64_t_def)

text \<open>
  C2. When reset returns, every \<open>torch::empty\<close> it called returned a tensor, and the
  parameters of the module are those it had before followed, for each layer from 0 to
  num_layers - 1 and in it each direction from 0 to num_directions - 1, by weight_ih of
  shape [gate_size, layer_input_size], weight_hh of shape [gate_size, hidden_size] and,
  exactly when bias is set, two bias tensors of shape [gate_size], each the tensor
  \<open>torch::empty\<close> returned for that shape. gate_size is 4 * hidden_size for LSTM,
  3 * hidden_size for GRU and hidden_size for RNN_TANH and RNN_RELU, and the layer input
  size is input_size for layer 0 and hidden_size * num_directions otherwise; the
  products are the \<open>int64_t\<close> products of the source, equal to the products of the
  numbers whenever those are values of \<open>int64_t\<close>. reset raises for any other mode.
  On a module that has no parameter yet, with the dropout in range, one of the four
  modes, at least one layer and a framework that accepts what reset asks of it, reset
  does return, with exactly these parameters.
\<close>

theorem reset_registers_parameters:
  "(reset api m = (tr, Inr m') \<longrightarrow>
      (\<exists>g. gate_size_of (options m) = Inr g \<and>
           list_all (\<lambda>shape. \<not> isl (torch_empty api shape)) (weight_shapes (options m) g) \<and>
           parameters m' = parameters m @ registered_parameters api (options m) g \<and>
           (\<forall>l d. 0 \<le> l \<and> l < num_layers (options m) \<and> 0 \<le> d \<and>
                  d < (if bidirectional (options m) then 2 else 1) \<longrightarrow>
                  set (layer_parameters api (options m) g l d) \<subseteq> set (parameters m')))) \<and>
   (parameters m = [] \<and> in_unit_interval (dropout (options m)) \<and>
    gate_size_of (options m) = Inr g \<and> 1 \<le> num_layers (options m) \<and>
    framework_accepts api (options m) g \<longrightarrow>
      (\<exists>tr' m''. reset api m = (tr', Inr m'') \<and>
                 parameters m'' = registered_parameters api (options m) g)) \<and>
   (gate_size_of opts = Inr g' \<longleftrightarrow>
      (mode opts = kLSTM \<and> g' = int64_t (4 * hidden_size opts) \<or>
       mode opts = kGRU \<and> g' = int64_t (3 * hidden_size opts) \<or>
       (mode opts = kRNN_TANH \<or> mode opts = kRNN_RELU) \<and> g' = hidden_size opts)) \<and>
   (is_int64 (4 * hidden_size opts) \<longrightarrow> int64_t (4 * hidden_size opts) = 4 * hidden_size opts) \<and>
   (is_int64 (3 * hidden_size opts) \<longrightarrow> int64_t (3 * hidden_size opts) = 3 * hidden_size opts) \<and>
   layer_input_size_of opts 0 = input_size opts \<and>
   (l \<noteq> 0 \<longrightarrow>
      layer_input_size_of opts l =
        int64_t (hidden_size opts * (if bidirectional opts then 2 else 1))) \<and>
   (l \<noteq> 0 \<and> is_int64 (hidden_size opts * (if bidirectional opts then 2 else 1)) \<longrightarrow>
      layer_input_size_of opts l = hidden_size opts * (if bidirectional opts then 2 else 1)) \<and>
   (mode (options m) = kUnrecognized \<longrightarrow> isl (snd (reset api m))) \<and>
   (mode (options m) = kUnrecognized \<and> in_unit_interval (dropout (options m)) \<longrightarrow>
      snd (reset api m) = Inl (Unrecognized_RNN_mode kUnrecognized))"
proof -
  have 1: "reset api m = (tr, Inr m') \<longrightarrow>
      (\<exists>g. gate_size_of (options m) = Inr g \<and>
           list_all (\<lambda>shape. \<not> isl (torch_empty api shape)) (weight_shapes (options m) g) \<and>
           parameters m' = parameters m @ registered_parameters api (options m) g \<and>
           (\<forall>l d. 0 \<le> l \<and> l < num_layers (options m) \<and> 0 \<le> d \<and>
                  d < (if bidirectional (options m) then 2 else 1) \<longrightarrow>
                  set (layer_parameters api (options m) g l d) \<subseteq> set (parameters m')))"
  proof
    assume "reset api m = (tr, Inr m')"
    from reset_Inr [OF this] obtain g where g: "gate_size_of (options m) = Inr g"
      and m': "m' = reset_result api m g"
      and ok: "list_all (\<lambda>shape. \<not> isl (torch_empty api shape)) (weight_shapes (options m) g)"
      by blast
    have p: "parameters m' = parameters m @ registered_parameters api (options m) g"
      by (simp add: m' parameters_reset_result)
    have "set (layer_parameters api (options m) g l d) \<subseteq> set (parameters m')"
      if "0 \<le> l \<and> l < num_layers (options m) \<and> 0 \<le> d \<and>
          d < (if bidirectional (options m) then 2 else 1)" for l d
      using layer_in_registered [of l "options m" d api g] that p by auto
    with g p ok show "\<exists>g. gate_size_of (options m) = Inr g \<and>
           list_all (\<lambda>shape. \<not> isl (torch_empty api shape)) (weight_shapes (options m) g) \<and>
           parameters m' = parameters m @ registered_parameters api (options m) g \<and>
           (\<forall>l d. 0 \<le> l \<and> l < num_layers (options m) \<and> 0 \<le> d \<and>
                  d < (if bidirectional (options m) then 2 else 1) \<longrightarrow>
                  set (layer_parameters api (options m) g l d) \<subseteq> set (parameters m'))"
      by blast
  qed
  have 8: "parameters m = [] \<and> in_unit_interval (dropout (options m)) \<and>
    gate_size_of (options m) = Inr g \<and> 1 \<le> num_layers (options m) \<and>
    framework_accepts api (options m) g \<longrightarrow>
      (\<exists>tr' m''. reset api m = (tr', Inr m'') \<and>
                 parameters m'' = registered_parameters api (options m) g)"
  proof
    assume a: "parameters m = [] \<and> in_unit_interval (dropout (options m)) \<and>
      gate_size_of (options m) = Inr g \<and> 1 \<le> num_layers (options m) \<and>
      framework_accepts api (options m) g"
    with reset_fresh(1) [of m g api]
    have "snd (reset api m) = Inr (reset_result api m g)" by simp
    then have "reset api m = (fst (reset api m), Inr (reset_result api m g))"
      by (simp add: prod_eq_iff)
    moreover have "parameters (reset_result api m g) = registered_parameters api (options m) g"
      using a by (simp add: parameters_reset_result)
    ultimately show "\<exists>tr' m''. reset api m = (tr', Inr m'') \<and>
                 parameters m'' = registered_parameters api (options m) g"
      by blast
  qed
  have 3: "mode (options m) = kUnrecognized \<and> in_unit_interval (dropout (options m)) \<longrightarrow>
      snd (reset api m) = Inl (Unrecognized_RNN_mode kUnrecognized)"
    using reset_bad_mode [of m "Unrecognized_RNN_mode kUnrecognized" api]
    by (auto simp: gate_size_of_unrecognized)
  have 2: "mode (options m) = kUnrecognized \<longrightarrow> isl (snd (reset api m))"
    using 3 reset_bad_dropout [of m api] by (cases "in_unit_interval (dropout (options m))") auto
  have 4: "is_int64 k \<longrightarrow> int64_t k = k" for k
    by (simp add: int64_t_id)
  have 5: "layer_input_size_of opts 0 = input_size opts"
    and 6: "l \<noteq> 0 \<longrightarrow> layer_input_size_of opts l =
        int64_t (hidden_size opts * (if bidirectional opts then 2 else 1))"
    by (simp_all add: layer_input_size_of_def)
  have 7: "l \<noteq> 0 \<and> is_int64 (hidden_size opts * (if bidirectional opts then 2 else 1)) \<longrightarrow>
      layer_input_size_of opts l = hidden_size opts * (if bidirectional opts then 2 else 1)"
    using 6 4 by simp
  show ?thesis
    apply (intro conjI)
    subgoal by (rule 1)
    subgoal by (rule 8)
    subgoal by (rule gate_size_of_Inr)
    subgoal by (rule 4)
    subgoal by (rule 4)
    subgoal by (rule 5)
    subgoal by (rule 6)
    subgoal by (rule 7)
    subgoal by (rule 2)
    subgoal by (rule 3)
    done
qed

theorem reset_registers_parameters_witness:
  "\<not> isl (snd (RNNImplBase_new example_torch (example_options kLSTM))) \<and>
   map (\<lambda>p. (fst p, map_option sizes (snd p)))
     (parameters (projr (snd (RNNImplBase_new example_torch (example_options kLSTM))))) =
   [(''weight_ih_l0'', Some [12, 5]), (''weight_hh_l0'', Some [12, 3]),
    (''bias_ih_l0'', Some [12]), (''bias_hh_l0'', Some [12]),
    (''weight_ih_l0_reverse'', Some [12, 5]), (''weight_hh_l0_reverse'', Some [12, 3]),
    (''bias_ih_l0_reverse'', Some [12]), (''bias_hh_l0_reverse'', Some [12]),
    (''weight_ih_l1'', Some [12, 6]), (''weight_hh_l1'', Some [12, 3]),
    (''bias_ih_l1'', Some [12]), (''bias_hh_l1'', Some [12]),
    (''weight_ih_l1_reverse'', Some [12, 6]), (''weight_hh_l1_reverse'', Some [12, 3]),
    (''bias_ih_l1_reverse'', Some [12]), (''bias_hh_l1_reverse'', Some [12])] \<and>
   gate_size_of (example_options kLSTM) = Inr 12 \<and>
   gate_size_of wide_options = Inr 0 \<and>
   layer_input_size_of (example_options kLSTM) 1 = 6 \<and>
   layer_input_size_of wide_options 1 = - (2 ^ 63) \<and>
   isl (snd (RNNImplBase_new example_torch (example_options kUnrecognized)))"
proof -
  let ?m = "new_module (example_options kLSTM)"
  let ?r = "RNNImplBase_new example_torch (example_options kLSTM)"
  note returns = reset_registers_parameters [THEN conjunct2, THEN conjunct1]
  note gate = reset_registers_parameters [THEN conjunct2, THEN conjunct2, THEN conjunct1]
  note fits4 = reset_registers_parameters [THEN conjunct2, THEN conjunct2, THEN conjunct2,
      THEN conjunct1]
  note later = reset_registers_parameters [THEN conjunct2, THEN conjunct2, THEN conjunct2,
      THEN conjunct2, THEN conjunct2, THEN conjunct2, THEN conjunct1]
  note later_fits = reset_registers_parameters [THEN conjunct2, THEN conjunct2,
      THEN conjunct2, THEN conjunct2, THEN conjunct2, THEN conjunct2, THEN conjunct2,
      THEN conjunct1]
  note unknown = reset_registers_parameters [THEN conjunct2, THEN conjunct2, THEN conjunct2,
      THEN conjunct2, THEN conjunct2, THEN conjunct2, THEN conjunct2, THEN conjunct2,
      THEN conjunct1]
  have h: "parameters ?m = [] \<and> in_unit_interval (dropout (options ?m)) \<and>
      gate_size_of (options ?m) = Inr 12 \<and> 1 \<le> num_layers (options ?m) \<and>
      framework_accepts example_torch (options ?m) 12"
    using example_accepts [of 12 kLSTM] example_gate_size(1)
    by (simp add: new_module_simps) (simp add: example_options_def)
  from returns [THEN mp, OF h] obtain tr' m''
    where r: "reset example_torch ?m = (tr', Inr m'')"
      and p: "parameters m'' = registered_parameters example_torch (options ?m) 12"
    by blast
  from r have s: "snd ?r = Inr m''" by (simp add: RNNImplBase_new_eq)
  have ni: "\<not> isl (snd ?r)" by (simp add: s)
  have 1: "map (\<lambda>p. (fst p, map_option sizes (snd p))) (parameters (projr (snd ?r))) =
   [(''weight_ih_l0'', Some [12, 5]), (''weight_hh_l0'', Some [12, 3]),
    (''bias_ih_l0'', Some [12]), (''bias_hh_l0'', Some [12]),
    (''weight_ih_l0_reverse'', Some [12, 5]), (''weight_hh_l0_reverse'', Some [12, 3]),
    (''bias_ih_l0_reverse'', Some [12]), (''bias_hh_l0_reverse'', Some [12]),
    (''weight_ih_l1'', Some [12, 6]), (''weight_hh_l1'', Some [12, 3]),
    (''bias_ih_l1'', Some [12]), (''bias_hh_l1'', Some [12]),
    (''weight_ih_l1_reverse'', Some [12, 6]), (''weight_hh_l1_reverse'', Some [12, 3]),
    (''bias_ih_l1_reverse'', Some [12]), (''bias_hh_l1_reverse'', Some [12])]"
    by (simp add: s p new_module_simps example_lstm_parameters)
  have i: "is_int64 (4 * 3)" "is_int64 (3 * 2)" "int64_t (4 * 2 ^ 62) = 0"
    "int64_t (2 ^ 62 * 2) = - (2 ^ 63)"
    by (simp_all add: is_int64_def int64_t_def)
  have g: "gate_size_of (example_options kLSTM) = Inr 12"
    using gate [of "example_options kLSTM" 12] fits4 [of "example_options kLSTM"] i
    by (simp add: example_options_def)
  have gw: "gate_size_of wide_options = Inr 0"
    using gate [of wide_options 0] i by (simp add: wide_options_def)
  have l1: "layer_input_size_of (example_options kLSTM) 1 = 6"
    using later_fits [of 1 "example_options kLSTM"] i by (simp add: example_options_def)
  have lw: "layer_input_size_of wide_options 1 = - (2 ^ 63)"
    using later [of 1 wide_options] i by (simp add: wide_options_def)
  have "isl (snd (reset example_torch (new_module (example_options kUnrecognized))))"
    using unknown [of "new_module (example_options kUnrecognized)" example_torch]
    by (simp add: new_module_def example_options_def)
  then have 2: "isl (snd (RNNImplBase_new example_torch (example_options kUnrecognized)))"
    by (simp add: RNNImplBase_new_eq)
  show ?thesis using ni 1 g gw l1 lw 2 by simp
qed

text \<open>
  C6. The templates and the two substitutions are in the file; the text that line 136
  substitutes for \<open>\{layer}\<close> is not, for the line passes the integer itself. For every
  text in that place that has no opening brace, the names for layer \<open>l\<close> and direction
  \<open>d\<close> are weight_ih_l, weight_hh_l and, with biases, bias_ih_l and bias_hh_l, each
  followed by that text and the suffix, which is \<open>_reverse\<close> for direction 1 and empty
  for direction 0. So the first name for direction 0 is \<open>weight_ih_l0\<close> exactly when the
  text is \<open>0\<close>, and the first name for direction 1 is \<open>weight_ih_l1_reverse\<close> exactly when
  the text is \<open>1\<close>. When reset returns, the names it has added to the parameters of the
  module, and the names of the flat weights, are the names of every layer and direction
  in order.
\<close>

theorem parameter_names:
  "(CHR ''{'' \<notin> set (layer_text api l) \<longrightarrow>
      param_names api b l d =
        map (\<lambda>pre. pre @ layer_text api l @ (if d = 1 then ''_reverse'' else []))
          ([''weight_ih_l'', ''weight_hh_l''] @
           (if b then [''bias_ih_l'', ''bias_hh_l''] else [])) \<and>
      (hd (param_names api b l 0) = ''weight_ih_l0'' \<longleftrightarrow> layer_text api l = ''0'') \<and>
      (hd (param_names api b l 1) = ''weight_ih_l1_reverse'' \<longleftrightarrow> layer_text api l = ''1'')) \<and>
   (reset api m = (tr, Inr m') \<longrightarrow>
      map fst (parameters m') = map fst (parameters m) @ registered_names api (options m) \<and>
      flat_weights_names m' = registered_names api (options m))"
proof (intro conjI impI)
  assume nb: "CHR ''{'' \<notin> set (layer_text api l)"
  show "param_names api b l d =
        map (\<lambda>pre. pre @ layer_text api l @ (if d = 1 then ''_reverse'' else []))
          ([''weight_ih_l'', ''weight_hh_l''] @
           (if b then [''bias_ih_l'', ''bias_hh_l''] else []))"
    using param_names_eq [OF nb] by (simp add: layer_names_def direction_suffix_def)
  have h0: "hd (param_names api b l 0) = ''weight_ih_l'' @ layer_text api l"
    using param_names_eq [OF nb, of b 0] by (simp add: layer_names_def direction_suffix_def)
  show "hd (param_names api b l 0) = ''weight_ih_l0'' \<longleftrightarrow> layer_text api l = ''0''"
    unfolding h0 by auto
  have h1: "hd (param_names api b l 1) = ''weight_ih_l'' @ layer_text api l @ ''_reverse''"
    using param_names_eq [OF nb, of b 1] by (simp add: layer_names_def direction_suffix_def)
  have "''weight_ih_l1_reverse'' = ''weight_ih_l'' @ ''1'' @ ''_reverse''" by simp
  then show "hd (param_names api b l 1) = ''weight_ih_l1_reverse'' \<longleftrightarrow> layer_text api l = ''1''"
    unfolding h1 by (simp only: same_append_eq append_same_eq)
next
  assume "reset api m = (tr, Inr m')"
  from reset_Inr [OF this] obtain g where m': "m' = reset_result api m g" by blast
  show "map fst (parameters m') = map fst (parameters m) @ registered_names api (options m)"
    by (simp add: m' parameters_reset_result keys_registered_parameters)
  show "flat_weights_names m' = registered_names api (options m)"
    by (simp add: m' names_reset_result)
qed

theorem parameter_names_witness:
  "param_names example_torch True 1 1 =
     [''weight_ih_l1_reverse'', ''weight_hh_l1_reverse'', ''bias_ih_l1_reverse'',
      ''bias_hh_l1_reverse''] \<and>
   param_names example_torch False 0 0 = [''weight_ih_l0'', ''weight_hh_l0''] \<and>
   param_names (example_torch\<lparr>layer_text := (\<lambda>l. ''zero'')\<rparr>) False 0 0 =
     [''weight_ih_lzero'', ''weight_hh_lzero''] \<and>
   hd (param_names (example_torch\<lparr>layer_text := (\<lambda>l. ''zero'')\<rparr>) False 0 0) \<noteq>
     ''weight_ih_l0'' \<and>
   map fst (parameters (projr (snd (RNNImplBase_new example_torch (example_options kGRU))))) =
     [''weight_ih_l0'', ''weight_hh_l0'', ''bias_ih_l0'', ''bias_hh_l0'',
      ''weight_ih_l0_reverse'', ''weight_hh_l0_reverse'', ''bias_ih_l0_reverse'',
      ''bias_hh_l0_reverse'',
      ''weight_ih_l1'', ''weight_hh_l1'', ''bias_ih_l1'', ''bias_hh_l1'',
      ''weight_ih_l1_reverse'', ''weight_hh_l1_reverse'', ''bias_ih_l1_reverse'',
      ''bias_hh_l1_reverse'']"
proof -
  let ?m = "new_module (example_options kGRU)"
  let ?r = "RNNImplBase_new example_torch (example_options kGRU)"
  let ?M = "reset_result example_torch ?m 9"
  let ?other = "example_torch\<lparr>layer_text := (\<lambda>l. ''zero'')\<rparr>"
  have s: "snd ?r = Inr ?M" by (simp add: example_new_returns)
  then have r: "reset example_torch ?m = (fst ?r, Inr ?M)"
    by (simp add: RNNImplBase_new_eq prod_eq_iff)
  have lt: "layer_text example_torch 1 = ''1''" "layer_text example_torch 0 = ''0''"
    by (simp_all add: example_layer_text to_string_def string_of_nat_small digit_char_def)
  from parameter_names [of example_torch 1 True 1 ?m "fst ?r" ?M] r
  have 1: "param_names example_torch True 1 1 =
     [''weight_ih_l1_reverse'', ''weight_hh_l1_reverse'', ''bias_ih_l1_reverse'',
      ''bias_hh_l1_reverse'']"
    and "map fst (parameters ?M) =
           map fst (parameters ?m) @ registered_names example_torch (options ?m)"
    by (simp_all add: lt)
  then have 2: "map fst (parameters ?M) =
     [''weight_ih_l0'', ''weight_hh_l0'', ''bias_ih_l0'', ''bias_hh_l0'',
      ''weight_ih_l0_reverse'', ''weight_hh_l0_reverse'', ''bias_ih_l0_reverse'',
      ''bias_hh_l0_reverse'',
      ''weight_ih_l1'', ''weight_hh_l1'', ''bias_ih_l1'', ''bias_hh_l1'',
      ''weight_ih_l1_reverse'', ''weight_hh_l1_reverse'', ''bias_ih_l1_reverse'',
      ''bias_hh_l1_reverse'']"
    by (simp add: new_module_def example_registered_names)
  from parameter_names [of example_torch 0 False 0]
  have 3: "param_names example_torch False 0 0 = [''weight_ih_l0'', ''weight_hh_l0'']"
    by (simp add: lt)
  from parameter_names [of ?other 0 False 0]
  have 4: "param_names ?other False 0 0 = [''weight_ih_lzero'', ''weight_hh_lzero'']"
    and 5: "hd (param_names ?other False 0 0) \<noteq> ''weight_ih_l0''"
    by simp_all
  show ?thesis using 1 2 3 4 5 s by simp
qed

text \<open>
  C10, as amended. A dropout outside the closed interval from 0 to 1 (a NaN lies
  outside) makes the construction raise, whatever the other options are. For options
  with one of the four modes and at least one layer, and a framework that accepts what
  the construction asks of it (every \<open>torch::empty\<close> returns a tensor, no name is
  registered twice, \<open>init::uniform_\<close> accepts every tensor), the construction raises if
  and only if the dropout lies outside the interval; a negative gate size or input size
  makes the first \<open>torch::empty\<close> raise although the dropout lies inside. A dropout
  above 0 with num_layers = 1 gives a warning and no error: the module is constructed.
  What happens with no layer at all is left open here (see below).
\<close>

theorem construction_raises_iff:
  "(\<not> in_unit_interval (dropout opts) \<longrightarrow>
      RNNImplBase_new api opts = ([], Inl Dropout_out_of_range)) \<and>
   (gate_size_of opts = Inr g \<and> 1 \<le> num_layers opts \<and> framework_accepts api opts g \<longrightarrow>
      (isl (snd (RNNImplBase_new api opts)) \<longleftrightarrow> \<not> in_unit_interval (dropout opts))) \<and>
   (gate_size_of opts = Inr g \<and> 1 \<le> num_layers opts \<and> in_unit_interval (dropout opts) \<and>
    (g < 0 \<or> input_size opts < 0) \<longrightarrow>
      snd (RNNImplBase_new api opts) = Inl (Negative_dimension [g, input_size opts])) \<and>
   (gate_size_of opts = Inr g \<and> framework_accepts api opts g \<and>
    in_unit_interval (dropout opts) \<and>
    double_less (Finite 0) (dropout opts) \<and> num_layers opts = 1 \<longrightarrow>
      (\<exists>tr m. RNNImplBase_new api opts = (Warn_dropout (dropout opts) 1 # tr, Inr m)))"
proof (intro conjI impI)
  assume "\<not> in_unit_interval (dropout opts)"
  then show "RNNImplBase_new api opts = ([], Inl Dropout_out_of_range)"
    using reset_bad_dropout [of "new_module opts" api]
    by (simp add: RNNImplBase_new_eq new_module_simps)
next
  assume a: "gate_size_of opts = Inr g \<and> 1 \<le> num_layers opts \<and> framework_accepts api opts g"
  show "isl (snd (RNNImplBase_new api opts)) \<longleftrightarrow> \<not> in_unit_interval (dropout opts)"
  proof (cases "in_unit_interval (dropout opts)")
    case False
    then show ?thesis
      using reset_bad_dropout [of "new_module opts" api]
      by (simp add: RNNImplBase_new_eq new_module_simps)
  next
    case True
    with a reset_fresh(1) [of "new_module opts" g api] show ?thesis
      by (simp add: RNNImplBase_new_eq new_module_simps)
  qed
next
  assume a: "gate_size_of opts = Inr g \<and> 1 \<le> num_layers opts \<and>
    in_unit_interval (dropout opts) \<and> (g < 0 \<or> input_size opts < 0)"
  then show "snd (RNNImplBase_new api opts) = Inl (Negative_dimension [g, input_size opts])"
    using reset_negative [of "new_module opts" g api]
    by (simp add: RNNImplBase_new_eq new_module_simps)
next
  assume a: "gate_size_of opts = Inr g \<and> framework_accepts api opts g \<and>
    in_unit_interval (dropout opts) \<and>
    double_less (Finite 0) (dropout opts) \<and> num_layers opts = 1"
  then have w: "dropout_warning opts = [Warn_dropout (dropout opts) 1]"
    by (simp add: dropout_warning_def)
  from reset_fresh [of "new_module opts" g api] a
  have "snd (reset api (new_module opts)) = Inr (reset_result api (new_module opts) g)"
    and "\<exists>tr. fst (reset api (new_module opts)) = dropout_warning opts @ tr"
    by (simp_all add: new_module_simps)
  with w obtain tr where "fst (reset api (new_module opts)) = Warn_dropout (dropout opts) 1 # tr"
    by auto
  with \<open>snd (reset api (new_module opts)) = Inr (reset_result api (new_module opts) g)\<close>
  have "RNNImplBase_new api opts =
          (Warn_dropout (dropout opts) 1 # tr, Inr (reset_result api (new_module opts) g))"
    by (simp add: RNNImplBase_new_eq prod_eq_iff)
  then show "\<exists>tr m. RNNImplBase_new api opts = (Warn_dropout (dropout opts) 1 # tr, Inr m)"
    by blast
qed

theorem construction_raises_iff_witness:
  "\<not> isl (snd (RNNImplBase_new example_torch warned_options)) \<and>
   hd (fst (RNNImplBase_new example_torch warned_options)) = Warn_dropout (Finite (1 / 2)) 1 \<and>
   \<not> isl (snd (RNNImplBase_new example_torch (example_options kLSTM))) \<and>
   RNNImplBase_new example_torch (warned_options\<lparr>dropout := Finite 2\<rparr>) =
     ([], Inl Dropout_out_of_range) \<and>
   RNNImplBase_new example_torch (warned_options\<lparr>dropout := NaN\<rparr>) =
     ([], Inl Dropout_out_of_range) \<and>
   snd (RNNImplBase_new example_torch (warned_options\<lparr>input_size := - 2\<rparr>)) =
     Inl (Negative_dimension [9, - 2])"
proof -
  have wo: "warned_options\<lparr>input_size := 5\<rparr> = warned_options"
    by (simp add: warned_options_def)
  have a1: "framework_accepts example_torch warned_options 9"
    using warned_accepts [of 9 5] by (simp add: wo)
  have g1: "gate_size_of warned_options = Inr 9"
    using example_gate_size(3) [of 5] by (simp add: wo)
  note t1 = construction_raises_iff [of warned_options example_torch 9]
  note t2 = construction_raises_iff [of "example_options kLSTM" example_torch 12]
  note t3 = construction_raises_iff [of "warned_options\<lparr>dropout := Finite 2\<rparr>" example_torch]
  note t4 = construction_raises_iff [of "warned_options\<lparr>dropout := NaN\<rparr>" example_torch]
  note t5 = construction_raises_iff [of "warned_options\<lparr>input_size := - 2\<rparr>" example_torch 9]
  have 1: "\<not> isl (snd (RNNImplBase_new example_torch warned_options))"
    using t1 a1 g1 by (simp add: warned_options_def)
  from t1 a1 g1 obtain tr m where
    "RNNImplBase_new example_torch warned_options = (Warn_dropout (dropout warned_options) 1 # tr, Inr m)"
    by (auto simp: warned_options_def)
  then have 2: "hd (fst (RNNImplBase_new example_torch warned_options)) = Warn_dropout (Finite (1 / 2)) 1"
    by (simp add: warned_options_def)
  have 3: "\<not> isl (snd (RNNImplBase_new example_torch (example_options kLSTM)))"
    using t2 example_accepts [of 12 kLSTM] example_gate_size(1) by (simp add: example_options_def)
  have 4: "RNNImplBase_new example_torch (warned_options\<lparr>dropout := Finite 2\<rparr>) =
     ([], Inl Dropout_out_of_range)"
    using t3 by (simp add: warned_options_def)
  have 5: "RNNImplBase_new example_torch (warned_options\<lparr>dropout := NaN\<rparr>) =
     ([], Inl Dropout_out_of_range)"
    using t4 by (simp add: warned_options_def)
  have 6: "snd (RNNImplBase_new example_torch (warned_options\<lparr>input_size := - 2\<rparr>)) =
     Inl (Negative_dimension [9, - 2])"
    using t5 example_gate_size(3) [of "- 2"] by (simp add: warned_options_def)
  show ?thesis using 1 2 3 4 5 6 by simp
qed

text \<open>
  C10 as stated fails: with a hidden size of - 1 the dropout 0 lies in the interval and
  the construction raises, because the gate size is - 3 and \<open>torch::empty\<close> refuses the
  shape [- 3, 5].
\<close>

theorem construction_counterexample:
  "in_unit_interval (dropout negative_options) \<and>
   RNNImplBase_new example_torch negative_options = ([], Inl (Negative_dimension [- 3, 5]))"
proof -
  have d: "in_unit_interval (dropout (options (new_module negative_options)))"
    by (simp add: new_module_simps negative_options_def)
  have g: "gate_size_of (options (new_module negative_options)) = Inr (- 3)"
    by (simp add: new_module_simps example_gate_size)
  have "reset example_torch (new_module negative_options) =
      (dropout_warning (options (new_module negative_options)),
       Inl (Negative_dimension [- 3, input_size (options (new_module negative_options))]))"
    using d g by (rule reset_negative) (simp_all add: new_module_simps negative_options_def)
  then show ?thesis
    by (simp add: RNNImplBase_new_eq new_module_simps negative_options_def dropout_warning_def)
qed

text \<open>
  With num_layers = 0 the loops register nothing, and flatten_parameters, which reset
  calls next, reads element 0 of the empty vector of flat weights (line 180): the C++
  has no defined behaviour there.
\<close>

lemma construction_without_layers:
  "snd (RNNImplBase_new example_torch no_layer_options) = Inl Vector_index_out_of_range"
proof -
  have a: "framework_accepts example_torch no_layer_options 12"
    by (simp add: framework_accepts_def weight_shapes_def registered_names_def
          registered_parameters_def no_layer_options_def)
  show ?thesis
    using reset_fresh(1) [of "new_module no_layer_options" 12 example_torch] a
      example_gate_size(6)
    by (simp add: RNNImplBase_new_eq new_module_simps) (simp add: no_layer_options_def)
qed


end
